theory Spec2Isabelle
  imports Main "HOL-Library.Word"
begin

section \<open>Zone database lifecycle and AXFR-IN timers of knot/server/zones.c\<close>

text \<open>
  A shallow embedding of \<^verbatim>\<open>src/knot/server/zones.c\<close>. Zone objects live in an explicit
  store (pointer to zone), because the old and the new zone database share carried-over
  zone objects and the timer events point back to their zone. Functions of the repository
  that zones.c calls but whose code is in other files (dnslib, the event scheduler, the
  ACL module, sockaddr, the compiled-zone reader) are either fields of the record
  \<open>env\<close>, so that every theorem holds for any implementation of them, or small
  definitions marked as modelled from the specification.
\<close>

subsection \<open>Data model\<close>

type_synonym u8 = "8 word"
type_synonym u16 = "16 word"
type_synonym u32 = "32 word"

text \<open>Return codes of knot/other/error.h, as far as zones.c uses them.\<close>

datatype knot_error = KNOT_EOK | KNOT_EINVAL | KNOT_ENOMEM | KNOT_EZONEINVAL | KNOT_ERROR

text \<open>A domain name in canonical form (the result of \<^verbatim>\<open>dnslib_dname_new_from_str\<close>).\<close>

type_synonym dname = string

text \<open>Pointers: a zone object and a scheduler event are addresses in their stores; a C
  pointer that may be NULL is an \<open>option\<close>.\<close>

type_synonym zone_ptr = nat
type_synonym event_ptr = nat

text \<open>
  Modelled from the spec: the RDATA type and the accessors \<^verbatim>\<open>dnslib_rdata_soa_refresh\<close>,
  \<^verbatim>\<open>dnslib_rdata_soa_retry\<close>, \<^verbatim>\<open>dnslib_rdata_soa_expire\<close> are declared in dnslib, outside
  the sources. An SOA RDATA carries SERIAL, REFRESH, RETRY, EXPIRE and MINIMUM as 32-bit
  fields (seconds); the accessors are the field selectors.
\<close>

record rdata =
  soa_serial :: u32
  soa_refresh :: u32
  soa_retry :: u32
  soa_expire :: u32
  soa_minimum :: u32

record rrset =
  rrs_type :: nat
  rrs_rdata :: "rdata list"

record node =
  owner :: dname
  rrsets :: "rrset list"

definition DNSLIB_RRTYPE_SOA :: nat where
  "DNSLIB_RRTYPE_SOA = 6"

text \<open>
  Modelled from the spec: \<^verbatim>\<open>dnslib_node_rrset\<close> and \<^verbatim>\<open>dnslib_rrset_rdata\<close> (dnslib, outside
  the sources) locate the first RRset of the given type on a node and the first RDATA of an
  RRset; NULL when there is none.
\<close>

fun dnslib_node_rrset :: "node \<Rightarrow> nat \<Rightarrow> rrset option" where
  "dnslib_node_rrset n t = find (\<lambda>rrs. rrs_type rrs = t) (rrsets n)"

fun dnslib_rrset_rdata :: "rrset \<Rightarrow> rdata option" where
  "dnslib_rrset_rdata rrs = (case rrs_rdata rrs of [] \<Rightarrow> None | rr # _ \<Rightarrow> Some rr)"

text \<open>A socket address (\<^verbatim>\<open>sockaddr_t\<close>): family, pointer to the address storage and its
  length. The storage is kept as the (address, port) pair it was resolved from.\<close>

record sockaddr =
  sa_family :: int
  sa_ptr :: "(string \<times> int) option"
  sa_len :: nat

text \<open>An access control list (\<^verbatim>\<open>acl_t\<close>): a default action and the ordered rules.\<close>

datatype acl_rule = ACL_DENY | ACL_ACCEPT

record acl =
  acl_default :: acl_rule
  acl_rules :: "(sockaddr \<times> acl_rule) list"

text \<open>
  Modelled from the spec: the zone type is declared in dnslib/zone.h, outside the sources.
  The zone keeps its apex node, its version (the time stamp of the compiled file, a
  \<^verbatim>\<open>time_t\<close> kept as an integer), the four ACLs of the specification's data model and the
  transfer-in state that zones.c reads and writes (\<^verbatim>\<open>zone->xfr_in.*\<close>).
\<close>

datatype ifaces_ref = Server_ifaces

record xfr_in_t =
  master :: sockaddr
  ifaces :: "ifaces_ref option"
  timer :: "event_ptr option"
  expire :: "event_ptr option"
  next_id :: int

record zone_acl =
  xfr_out :: "acl option"
  xfr_in_acl :: "acl option"
  notify_in :: "acl option"
  notify_out :: "acl option"

record zone =
  apex :: node
  version :: int
  zacl :: zone_acl
  xfr_in :: xfr_in_t

subsection \<open>SOA timer extractor (zones.c, lines 25-73)\<close>

text \<open>
  \<^verbatim>\<open>zones_soa_timer\<close> fetches the first SOA RRset of the apex, its first RDATA, applies
  the selector and multiplies by 1000 in \<^verbatim>\<open>uint32_t\<close> (so the product wraps modulo
  \<open>2^32\<close>). A zone without an apex SOA makes the C code pass NULL on to the selector; the
  model returns \<open>None\<close> there.
\<close>

definition zones_soa_timer :: "zone \<Rightarrow> (rdata \<Rightarrow> u32) \<Rightarrow> u32 option" where
  "zones_soa_timer zone rr_func =
     (case dnslib_node_rrset (apex zone) DNSLIB_RRTYPE_SOA of
        None \<Rightarrow> None
      | Some soa_rrs \<Rightarrow>
          (case dnslib_rrset_rdata soa_rrs of
             None \<Rightarrow> None
           | Some soa_rr \<Rightarrow> Some (rr_func soa_rr * 1000)))"

definition zones_soa_refresh :: "zone \<Rightarrow> u32 option" where
  "zones_soa_refresh zone = zones_soa_timer zone soa_refresh"

definition zones_soa_retry :: "zone \<Rightarrow> u32 option" where
  "zones_soa_retry zone = zones_soa_timer zone soa_retry"

definition zones_soa_expire :: "zone \<Rightarrow> u32 option" where
  "zones_soa_expire zone = zones_soa_timer zone soa_expire"

text \<open>The apex SOA RDATA of a zone, when it has one.\<close>

definition apex_soa :: "zone \<Rightarrow> rdata option" where
  "apex_soa zone =
     (case dnslib_node_rrset (apex zone) DNSLIB_RRTYPE_SOA of
        None \<Rightarrow> None
      | Some soa_rrs \<Rightarrow> dnslib_rrset_rdata soa_rrs)"

subsection \<open>The surroundings of zones.c\<close>

text \<open>Configuration (knot/conf/conf.h): a remote is an interface description; a zone has
  its name, the path of its source file, the path of its compiled file (may be NULL) and
  four lists of remotes.\<close>

record conf_iface =
  cfg_family :: int
  cfg_address :: string
  cfg_port :: int

record conf_remote =
  remote :: conf_iface

record conf_acl =
  conf_xfr_in :: "conf_remote list"
  conf_xfr_out :: "conf_remote list"
  conf_notify_in :: "conf_remote list"
  conf_notify_out :: "conf_remote list"

record conf_zone =
  cz_name :: string
  cz_file :: string
  cz_db :: "string option"
  cz_acl :: conf_acl

text \<open>An open compiled-zone reader (\<^verbatim>\<open>zloader_t\<close>): the source path stored in the file,
  whether the reader finds the compiled form out of date, and the zone that
  \<^verbatim>\<open>dnslib_zload_load\<close> decodes from it (NULL when decoding fails).\<close>

record zloader =
  zl_source :: string
  zl_needs_update :: bool
  zl_zone :: "zone option"

text \<open>
  The functions of other modules and of the operating system that zones.c calls, as
  parameters: converting a string to a domain name (NULL on failure); \<^verbatim>\<open>sockaddr_set\<close>,
  which returns a positive value on success and leaves a socket address in its first
  argument, both determined by family, address and port; whether the allocation inside
  \<^verbatim>\<open>acl_new\<close> succeeds; whether \<^verbatim>\<open>stat\<close> succeeds on a path and the modification time
  it then reports; opening a compiled zone file; building the SOA query for a name
  (return code and the bytes
  written, whose number is \<^verbatim>\<open>buflen\<close>); \<^verbatim>\<open>sendto\<close> on a socket (bytes sent or \<open>-1\<close>);
  and reading the message ID of a wire-format query.
\<close>

record env =
  dnslib_dname_new_from_str :: "string \<Rightarrow> dname option"
  sockaddr_set :: "int \<Rightarrow> string \<Rightarrow> int \<Rightarrow> int \<times> sockaddr"
  acl_alloc_ok :: bool
  stat_ok :: "string \<Rightarrow> bool"
  stat_mtime :: "string \<Rightarrow> int"
  dnslib_zload_open :: "string \<Rightarrow> zloader option"
  xfrin_create_soa_query :: "dname \<Rightarrow> knot_error \<times> u8 list"
  sendto :: "int \<Rightarrow> u8 list \<Rightarrow> sockaddr \<Rightarrow> int"
  dnslib_wire_get_id :: "u8 list \<Rightarrow> u16"

text \<open>
  Modelled from the spec: the event scheduler (common/evsched, outside the sources) with the
  operations \<^verbatim>\<open>schedule_cb(sched, fn, data, ms)\<close>, \<^verbatim>\<open>schedule(sched, event, ms)\<close>,
  \<^verbatim>\<open>cancel(sched, event)\<close> and \<^verbatim>\<open>event_free(sched, event)\<close>. An event record carries its
  callback and its data pointer (the zone). The scheduler holds the allocated event
  records and the queue of pending (live) events with their delays in milliseconds.
\<close>

datatype callback = Cb_axfrin_poll | Cb_axfrin_expire

record event =
  ev_cb :: callback
  ev_data :: zone_ptr

record evsched =
  es_events :: "event_ptr \<Rightarrow> event option"
  es_queue :: "(event_ptr \<times> u32) list"
  es_next :: event_ptr

definition evsched_schedule_cb ::
  "evsched \<Rightarrow> callback \<Rightarrow> zone_ptr \<Rightarrow> u32 \<Rightarrow> event_ptr \<times> evsched" where
  "evsched_schedule_cb s cb data dt =
     (let e = es_next s in
      (e, s\<lparr>es_events := (es_events s)(e \<mapsto> \<lparr>ev_cb = cb, ev_data = data\<rparr>),
             es_queue := es_queue s @ [(e, dt)],
             es_next := Suc e\<rparr>))"

definition evsched_schedule :: "evsched \<Rightarrow> event_ptr \<Rightarrow> u32 \<Rightarrow> evsched" where
  "evsched_schedule s e dt = s\<lparr>es_queue := es_queue s @ [(e, dt)]\<rparr>"

definition evsched_cancel :: "evsched \<Rightarrow> event_ptr \<Rightarrow> evsched" where
  "evsched_cancel s e = s\<lparr>es_queue := filter (\<lambda>q. fst q \<noteq> e) (es_queue s)\<rparr>"

definition evsched_event_free :: "evsched \<Rightarrow> event_ptr \<Rightarrow> evsched" where
  "evsched_event_free s e = s\<lparr>es_events := (es_events s)(e := None)\<rparr>"

text \<open>The live events of a given callback that point to a given zone.\<close>

definition live_events :: "evsched \<Rightarrow> callback \<Rightarrow> zone_ptr \<Rightarrow> event_ptr list" where
  "live_events s cb z =
     map fst (filter (\<lambda>q. case es_events s (fst q) of
                              None \<Rightarrow> False
                            | Some ev \<Rightarrow> ev_cb ev = cb \<and> ev_data ev = z) (es_queue s))"

text \<open>A network interface of the server (\<^verbatim>\<open>iface_t\<close>): the family and the descriptor of
  its UDP socket (\<^verbatim>\<open>type[UDP_ID]\<close>, \<^verbatim>\<open>fd[UDP_ID]\<close>).\<close>

record iface =
  if_type_udp :: int
  if_fd_udp :: int

text \<open>The state zones.c works on: the store of zone objects with its allocation
  counter, the server's scheduler and the server's interface table.\<close>

record world =
  w_zones :: "zone_ptr \<Rightarrow> zone option"
  w_next_zone :: zone_ptr
  w_sched :: evsched
  w_ifaces :: "iface list"

text \<open>
  Modelled from the spec: the zone database (dnslib/zonedb, outside the sources) maps domain
  names to zone objects, keys unique. A zone is stored under the owner of its apex; an
  insert under a name that is already present fails and leaves the database as it was;
  removal without freeing drops the name only.
\<close>

type_synonym zonedb = "dname \<Rightarrow> zone_ptr option"

definition dnslib_zonedb_find_zone :: "zonedb \<Rightarrow> dname \<Rightarrow> zone_ptr option" where
  "dnslib_zonedb_find_zone db zone_name = db zone_name"

definition dnslib_zonedb_add_zone ::
  "(zone_ptr \<Rightarrow> zone option) \<Rightarrow> zonedb \<Rightarrow> zone_ptr \<Rightarrow> zonedb option" where
  "dnslib_zonedb_add_zone store db p =
     (case store p of
        None \<Rightarrow> None
      | Some zone \<Rightarrow>
          (case db (owner (apex zone)) of
             Some _ \<Rightarrow> None
           | None \<Rightarrow> Some (db(owner (apex zone) \<mapsto> p))))"

definition dnslib_zonedb_remove_zone :: "zonedb \<Rightarrow> dname \<Rightarrow> zonedb" where
  "dnslib_zonedb_remove_zone db zone_name = db(zone_name := None)"

subsection \<open>AXFR-IN event handlers (zones.c, lines 75-198)\<close>

text \<open>
  A handler receives the event that fired; the scheduler has taken it off the queue. It
  reads the zone from \<^verbatim>\<open>e->data\<close>. A dangling event or zone pointer, and a zone without
  an apex SOA where a timer value is needed, are undefined behaviour in C: the model
  returns \<open>None\<close>.
\<close>

definition zones_axfrin_expire :: "world \<Rightarrow> event_ptr \<Rightarrow> (int \<times> world) option" where
  "zones_axfrin_expire w e =
     (case es_events (w_sched w) e of
        None \<Rightarrow> None
      | Some ev \<Rightarrow>
          (case w_zones w (ev_data ev) of
             None \<Rightarrow> None
           | Some zone \<Rightarrow>
               (let caller = w_sched w;
                    (caller1, zone1) =
                      (case timer (xfr_in zone) of
                         Some t \<Rightarrow>
                           (evsched_event_free (evsched_cancel caller t) t,
                            zone\<lparr>xfr_in := (xfr_in zone)\<lparr>timer := None\<rparr>\<rparr>)
                       | None \<Rightarrow> (caller, zone));
                    caller2 = evsched_event_free caller1 e;
                    zone2 = zone1\<lparr>xfr_in := (xfr_in zone1)\<lparr>expire := None, next_id := - 1\<rparr>\<rparr>
                in Some (0, w\<lparr>w_zones := (w_zones w)(ev_data ev \<mapsto> zone2),
                               w_sched := caller2\<rparr>))))"

text \<open>The walk over the interface table (lines 132-137): the descriptor of the first
  interface whose UDP socket has the master's family, \<open>-1\<close> when there is none.\<close>

fun find_iface_sock :: "iface list \<Rightarrow> int \<Rightarrow> int" where
  "find_iface_sock [] fam = - 1"
| "find_iface_sock (i # rest) fam =
     (if if_type_udp i = fam then if_fd_udp i else find_iface_sock rest fam)"

text \<open>What the poll handler returns: the code of the query construction when nothing was
  sent, the result of the send attempt otherwise (both an \<^verbatim>\<open>int\<close> in C).\<close>

datatype poll_ret = Query_ret knot_error | Send_ret int

text \<open>Lines 111-156 of the poll handler: build the query, pick a socket, send, and store
  the ID of the awaited response when the whole buffer went out.\<close>

definition zones_poll_send :: "env \<Rightarrow> iface list \<Rightarrow> zone \<Rightarrow> poll_ret \<times> zone" where
  "zones_poll_send env ifs zone =
     (let dname = owner (apex zone);
          (ret, qbuf) = xfrin_create_soa_query env dname
      in if ret = KNOT_EOK \<and> ifaces (xfr_in zone) \<noteq> None then
           (let master = master (xfr_in zone);
                sock = find_iface_sock ifs (sa_family master);
                sent = (if sock > - 1 then sendto env sock qbuf master else - 1)
            in (Send_ret sent,
                if sent = int (length qbuf)
                then zone\<lparr>xfr_in := (xfr_in zone)\<lparr>next_id := uint (dnslib_wire_get_id env qbuf)\<rparr>\<rparr>
                else zone))
         else (Query_ret ret, zone))"

definition zones_axfrin_poll :: "env \<Rightarrow> world \<Rightarrow> event_ptr \<Rightarrow> (poll_ret \<times> world) option" where
  "zones_axfrin_poll env w e =
     (case es_events (w_sched w) e of
        None \<Rightarrow> None
      | Some ev \<Rightarrow>
          (case w_zones w (ev_data ev) of
             None \<Rightarrow> None
           | Some zone \<Rightarrow>
               (let (ret, zone1) = zones_poll_send env (w_ifaces w) zone;
                    caller = w_sched w;
                    armed =
                      (if expire (xfr_in zone1) = None then
                         (case zones_soa_expire zone1 of
                            None \<Rightarrow> None
                          | Some expire_tmr \<Rightarrow>
                              (let (x, caller1) =
                                     evsched_schedule_cb caller Cb_axfrin_expire (ev_data ev) expire_tmr
                               in Some (caller1, zone1\<lparr>xfr_in := (xfr_in zone1)\<lparr>expire := Some x\<rparr>\<rparr>)))
                       else Some (caller, zone1))
                in case armed of
                     None \<Rightarrow> None
                   | Some (caller1, zone2) \<Rightarrow>
                       (case zones_soa_retry zone2 of
                          None \<Rightarrow> None
                        | Some retry_tmr \<Rightarrow>
                            Some (ret, w\<lparr>w_zones := (w_zones w)(ev_data ev \<mapsto> zone2),
                                         w_sched := evsched_schedule caller1 e retry_tmr\<rparr>)))))"

definition zones_timers_update :: "world \<Rightarrow> zone_ptr \<Rightarrow> world option" where
  "zones_timers_update w p =
     (case w_zones w p of
        None \<Rightarrow> None
      | Some zone \<Rightarrow>
          if sa_ptr (master (xfr_in zone)) = None then Some w
          else
            (case zones_soa_refresh zone of
               None \<Rightarrow> None
             | Some refresh_tmr \<Rightarrow>
                 (let (t, sch1) = evsched_schedule_cb (w_sched w) Cb_axfrin_poll p refresh_tmr;
                      zone1 = zone\<lparr>xfr_in := (xfr_in zone)\<lparr>timer := Some t\<rparr>\<rparr>;
                      (sch2, zone2) =
                        (case expire (xfr_in zone1) of
                           Some x \<Rightarrow>
                             (evsched_event_free (evsched_cancel sch1 x) x,
                              zone1\<lparr>xfr_in := (xfr_in zone1)\<lparr>expire := None\<rparr>\<rparr>)
                         | None \<Rightarrow> (sch1, zone1))
                  in Some (w\<lparr>w_zones := (w_zones w)(p \<mapsto> zone2), w_sched := sch2\<rparr>))))"

subsection \<open>ACL builder (zones.c, lines 200-242)\<close>

text \<open>
  Modelled from the spec: \<^verbatim>\<open>acl_new\<close> and \<^verbatim>\<open>acl_create\<close> (the ACL module, outside the
  sources). A new ACL has the given default action and no rule, or is NULL when the
  allocation fails; \<^verbatim>\<open>acl_create\<close> appends the rule (address, action).
\<close>

definition acl_new :: "env \<Rightarrow> acl_rule \<Rightarrow> acl option" where
  "acl_new env deflt =
     (if acl_alloc_ok env then Some \<lparr>acl_default = deflt, acl_rules = []\<rparr> else None)"

definition acl_create :: "acl \<Rightarrow> sockaddr \<Rightarrow> acl_rule \<Rightarrow> acl" where
  "acl_create a addr rule = a\<lparr>acl_rules := acl_rules a @ [(addr, rule)]\<rparr>"

text \<open>The walk over the configured remotes (lines 226-239).\<close>

fun zones_load_acl_rules :: "env \<Rightarrow> acl \<Rightarrow> conf_remote list \<Rightarrow> acl" where
  "zones_load_acl_rules env a [] = a"
| "zones_load_acl_rules env a (r # rest) =
     (let cfg_if = remote r;
          (ret, addr) = sockaddr_set env (cfg_family cfg_if) (cfg_address cfg_if) (cfg_port cfg_if)
      in zones_load_acl_rules env
           (if ret > 0 then acl_create a addr ACL_ACCEPT else a) rest)"

text \<open>
  \<^verbatim>\<open>zones_set_acl(acl_t **acl, list *acl_list)\<close>: the first argument is a pointer to a
  slot (\<open>None\<close> for a NULL pointer, \<open>Some s\<close> for a slot holding \<open>s\<close>, itself
  NULL or an ACL), the second a pointer to the list. The result is the return code and
  the slot afterwards. The old ACL is deleted and the slot overwritten with what
  \<^verbatim>\<open>acl_new\<close> returns.
\<close>

definition zones_set_acl ::
  "env \<Rightarrow> acl option option \<Rightarrow> conf_remote list option \<Rightarrow> knot_error \<times> acl option option" where
  "zones_set_acl env acl acl_list =
     (case (acl, acl_list) of
        (Some slot, Some rules) \<Rightarrow>
          (case acl_new env ACL_DENY of
             None \<Rightarrow> (KNOT_ENOMEM, Some None)
           | Some a \<Rightarrow> (KNOT_EOK, Some (Some (zones_load_acl_rules env a rules))))
      | _ \<Rightarrow> (KNOT_EINVAL, acl))"

subsection \<open>Zone loader (zones.c, lines 244-309)\<close>

text \<open>
  \<^verbatim>\<open>zones_load_zone(zonedb, zone_name, source, filename)\<close>. The decoded zone is a new
  object in the store; its version is set to the modification time of the compiled file;
  when the database refuses it, \<^verbatim>\<open>dnslib_zone_deep_free\<close> takes it out of the store
  again. The comparison of the source paths and \<^verbatim>\<open>dnslib_zload_needs_update\<close> only decide
  whether a warning is logged. The return value of \<^verbatim>\<open>stat\<close> is not checked here either;
  the call is on the compiled file that \<^verbatim>\<open>dnslib_zload_open\<close> has just opened and is taken
  to succeed. The result is the return code, the store and the database.
\<close>

definition zones_load_zone ::
  "env \<Rightarrow> world \<Rightarrow> zonedb \<Rightarrow> string \<Rightarrow> string \<Rightarrow> string option \<Rightarrow> knot_error \<times> world \<times> zonedb" where
  "zones_load_zone env w zonedb zone_name source filename =
     (case filename of
        None \<Rightarrow> (KNOT_EINVAL, w, zonedb)
      | Some fn \<Rightarrow>
          (case dnslib_zload_open env fn of
             None \<Rightarrow> (KNOT_EZONEINVAL, w, zonedb)
           | Some zl \<Rightarrow>
               (case zl_zone zl of
                  None \<Rightarrow> (KNOT_EZONEINVAL, w, zonedb)
                | Some decoded \<Rightarrow>
                    (let p = w_next_zone w;
                         zone = decoded\<lparr>version := stat_mtime env fn\<rparr>;
                         w1 = w\<lparr>w_zones := (w_zones w)(p \<mapsto> zone), w_next_zone := Suc p\<rparr>
                     in case dnslib_zonedb_add_zone (w_zones w1) zonedb p of
                          None \<Rightarrow>
                            (KNOT_EZONEINVAL, w1\<lparr>w_zones := (w_zones w1)(p := None)\<rparr>, zonedb)
                        | Some zonedb1 \<Rightarrow> (KNOT_EOK, w1, zonedb1)))))"

subsection \<open>Zone database reconciler (zones.c, lines 311-459)\<close>

text \<open>Lines 350-363: the zone found in the old database is reloaded when the source file
  is newer than the loaded version; a zone that was not found is loaded. The return value
  of \<^verbatim>\<open>stat\<close> is not checked: when the call fails, the comparison reads a
  \<^verbatim>\<open>struct stat\<close> that was never written, an indeterminate value, and the model returns
  \<open>None\<close>.\<close>

definition zones_reload_flag :: "env \<Rightarrow> world \<Rightarrow> conf_zone \<Rightarrow> zone_ptr option \<Rightarrow> bool option" where
  "zones_reload_flag env w z zone =
     (case zone of
        Some p \<Rightarrow>
          (case w_zones w p of
             None \<Rightarrow> None
           | Some old \<Rightarrow>
               if stat_ok env (cz_file z)
               then Some (version old < stat_mtime env (cz_file z))
               else None)
      | None \<Rightarrow> Some True)"

text \<open>Lines 365-392: load the zone into the new database, or add the object of the old
  database to the new one. The result is the zone pointer the rest of the loop body works
  on, the count of inserted zones, the store and the new database.\<close>

definition zones_obtain_zone ::
  "env \<Rightarrow> conf_zone \<Rightarrow> dname \<Rightarrow> zone_ptr option \<Rightarrow> bool \<Rightarrow> int \<times> world \<times> zonedb \<Rightarrow>
   zone_ptr option \<times> int \<times> world \<times> zonedb" where
  "zones_obtain_zone env z zone_name zone reload st =
     (case st of (inserted, w, db_new) \<Rightarrow>
        if reload then
          (case zones_load_zone env w db_new (cz_name z) (cz_file z) (cz_db z) of
             (ret, w1, db1) \<Rightarrow>
               if ret \<noteq> KNOT_EOK then (zone, inserted, w1, db1)
               else (dnslib_zonedb_find_zone db1 zone_name, inserted + 1, w1, db1))
        else
          (case zone of
             None \<Rightarrow> (zone, inserted, w, db_new)
           | Some p \<Rightarrow>
               (case dnslib_zonedb_add_zone (w_zones w) db_new p of
                  None \<Rightarrow> (zone, inserted, w, db_new)
                | Some db1 \<Rightarrow> (zone, inserted + 1, w, db1))))"

text \<open>
  Modelled from the spec: \<^verbatim>\<open>sockaddr_init(addr, -1)\<close> (outside the sources) initialises the
  master to "unset": no address storage.
\<close>

definition sockaddr_init :: "int \<Rightarrow> sockaddr" where
  "sockaddr_init af = \<lparr>sa_family = af, sa_ptr = None, sa_len = 0\<rparr>"

text \<open>Lines 397-413: the calls of \<^verbatim>\<open>zones_set_acl\<close> on the zone's slots (return values
  unused), the interface table, and the master address from the head of the configured
  xfr-in list.\<close>

definition zones_update_acl_master :: "env \<Rightarrow> conf_zone \<Rightarrow> zone \<Rightarrow> zone" where
  "zones_update_acl_master env z zone =
     (let slot = (\<lambda>old rules. case snd (zones_set_acl env (Some old) (Some rules)) of
                                 Some s \<Rightarrow> s | None \<Rightarrow> old);
          zone1 = zone\<lparr>zacl := (zacl zone)\<lparr>xfr_out := slot (xfr_out (zacl zone)) (conf_xfr_out (cz_acl z))\<rparr>\<rparr>;
          zone2 = zone1\<lparr>zacl := (zacl zone1)\<lparr>notify_in := slot (notify_in (zacl zone1)) (conf_notify_in (cz_acl z))\<rparr>\<rparr>;
          zone3 = zone2\<lparr>zacl := (zacl zone2)\<lparr>notify_out := slot (notify_out (zacl zone2)) (conf_notify_out (cz_acl z))\<rparr>\<rparr>;
          zone4 = zone3\<lparr>xfr_in := (xfr_in zone3)\<lparr>ifaces := Some Server_ifaces\<rparr>\<rparr>;
          zone5 = zone4\<lparr>xfr_in := (xfr_in zone4)\<lparr>master := sockaddr_init (- 1)\<rparr>\<rparr>
      in case conf_xfr_in (cz_acl z) of
           [] \<Rightarrow> zone5
         | r # _ \<Rightarrow>
             (let cfg_if = remote r
              in zone5\<lparr>xfr_in := (xfr_in zone5)
                   \<lparr>master := snd (sockaddr_set env (cfg_family cfg_if) (cfg_address cfg_if)
                                     (cfg_port cfg_if))\<rparr>\<rparr>))"

text \<open>Lines 394-417: when a zone object was obtained, update it and then its timers.\<close>

definition zones_update_zone :: "env \<Rightarrow> conf_zone \<Rightarrow> world \<Rightarrow> zone_ptr \<Rightarrow> world option" where
  "zones_update_zone env z w p =
     (case w_zones w p of
        None \<Rightarrow> None
      | Some zone \<Rightarrow>
          zones_timers_update (w\<lparr>w_zones := (w_zones w)(p \<mapsto> zones_update_acl_master env z zone)\<rparr>) p)"

text \<open>The body of the loop for one configured zone whose name converted (lines 344-419).\<close>

definition zones_insert_zone ::
  "env \<Rightarrow> conf_zone \<Rightarrow> dname \<Rightarrow> zonedb \<Rightarrow> int \<times> world \<times> zonedb \<Rightarrow> (int \<times> world \<times> zonedb) option" where
  "zones_insert_zone env z zone_name db_old st =
     (let zone = dnslib_zonedb_find_zone db_old zone_name
      in case zones_reload_flag env (fst (snd st)) z zone of
           None \<Rightarrow> None
         | Some reload \<Rightarrow>
             (case zones_obtain_zone env z zone_name zone reload st of
                (zone1, inserted, w, db_new) \<Rightarrow>
                  (case zone1 of
                     None \<Rightarrow> Some (inserted, w, db_new)
                   | Some p \<Rightarrow>
                       (case zones_update_zone env z w p of
                          None \<Rightarrow> None
                        | Some w1 \<Rightarrow> Some (inserted, w1, db_new)))))"

text \<open>\<^verbatim>\<open>zones_insert_zones\<close>: the loop over the configured zones; it returns the count
  so far as soon as a name does not convert.\<close>

fun zones_insert_zones ::
  "env \<Rightarrow> conf_zone list \<Rightarrow> zonedb \<Rightarrow> int \<times> world \<times> zonedb \<Rightarrow> (int \<times> world \<times> zonedb) option" where
  "zones_insert_zones env [] db_old st = Some st"
| "zones_insert_zones env (z # rest) db_old st =
     (case dnslib_dname_new_from_str env (cz_name z) of
        None \<Rightarrow> Some st
      | Some zone_name \<Rightarrow>
          (case zones_insert_zone env z zone_name db_old st of
             None \<Rightarrow> None
           | Some st1 \<Rightarrow> zones_insert_zones env rest db_old st1))"

text \<open>\<^verbatim>\<open>zones_remove_zones\<close>: remove every configured name from the old database,
  without freeing the zone; stop with an error at a name that does not convert.\<close>

fun zones_remove_zones :: "env \<Rightarrow> conf_zone list \<Rightarrow> zonedb \<Rightarrow> knot_error \<times> zonedb" where
  "zones_remove_zones env [] db_old = (KNOT_EOK, db_old)"
| "zones_remove_zones env (z # rest) db_old =
     (case dnslib_dname_new_from_str env (cz_name z) of
        None \<Rightarrow> (KNOT_ERROR, db_old)
      | Some zone_name \<Rightarrow>
          zones_remove_zones env rest (dnslib_zonedb_remove_zone db_old zone_name))"

subsection \<open>Vocabulary of the statements\<close>

text \<open>Whether the address of a configured remote resolves (\<^verbatim>\<open>sockaddr_set\<close> returns a
  positive value), and the address it resolves to.\<close>

definition remote_resolves :: "env \<Rightarrow> conf_remote \<Rightarrow> bool" where
  "remote_resolves env r =
     (fst (sockaddr_set env (cfg_family (remote r)) (cfg_address (remote r)) (cfg_port (remote r))) > 0)"

definition remote_addr :: "env \<Rightarrow> conf_remote \<Rightarrow> sockaddr" where
  "remote_addr env r =
     snd (sockaddr_set env (cfg_family (remote r)) (cfg_address (remote r)) (cfg_port (remote r)))"

text \<open>The domain names of the configured zones whose names convert.\<close>

definition conf_dnames :: "env \<Rightarrow> conf_zone list \<Rightarrow> dname list" where
  "conf_dnames env zone_conf =
     List.map_filter (\<lambda>z. dnslib_dname_new_from_str env (cz_name z)) zone_conf"

text \<open>Whether the name of a configured zone converts to a domain name.\<close>

definition conf_converts :: "env \<Rightarrow> conf_zone \<Rightarrow> bool" where
  "conf_converts env z = (dnslib_dname_new_from_str env (cz_name z) \<noteq> None)"

text \<open>A queue of the scheduler with its delays read as numbers of milliseconds.\<close>

definition queue_ms :: "(event_ptr \<times> u32) list \<Rightarrow> (event_ptr \<times> nat) list" where
  "queue_ms q = map (\<lambda>entry. (fst entry, unat (snd entry))) q"




text \<open>A store keeps the objects of another when every object of the other is still
  there with its apex and its version; a database extends another when it maps every name
  of the other to the same object.\<close>

definition store_keeps :: "world \<Rightarrow> world \<Rightarrow> bool" where
  "store_keeps w w' =
     (\<forall>q zone. w_zones w q = Some zone \<longrightarrow>
        (\<exists>zone'. w_zones w' q = Some zone' \<and> version zone' = version zone
                  \<and> apex zone' = apex zone))"

definition db_extends :: "zonedb \<Rightarrow> zonedb \<Rightarrow> bool" where
  "db_extends db db' = (\<forall>n p. db n = Some p \<longrightarrow> db' n = Some p)"

subsection \<open>A concrete server\<close>

text \<open>
  One zone, \<open>example.com.\<close>, with SOA REFRESH 10 s, RETRY 5 s, EXPIRE 30 s, compiled in
  \<open>/z/ex.db\<close> (modification time 1000); a compiled file \<open>/z/bad.db\<close> that opens but
  does not decode; source files of modification times 1000 (\<open>/z/ex.zone\<close>), 2000
  (\<open>/z/new.zone\<close>) and 500 (\<open>/z/old.zone\<close>), and no file \<open>/z/none.zone\<close>; a name
  converter that refuses the empty string; an address resolver that refuses the empty address and negative ports; a master
  that cannot be reached (\<^verbatim>\<open>sendto\<close> returns \<open>-1\<close>).
\<close>

definition ex_rdata :: "u32 \<Rightarrow> u32 \<Rightarrow> u32 \<Rightarrow> rdata" where
  "ex_rdata R r E =
     \<lparr>soa_serial = 1, soa_refresh = R, soa_retry = r, soa_expire = E, soa_minimum = 3600\<rparr>"

definition ex_zone :: "dname \<Rightarrow> rdata \<Rightarrow> zone" where
  "ex_zone n rd =
     \<lparr>apex = \<lparr>owner = n, rrsets = [\<lparr>rrs_type = 6, rrs_rdata = [rd]\<rparr>]\<rparr>,
      version = 0,
      zacl = \<lparr>xfr_out = None, xfr_in_acl = None, notify_in = None, notify_out = None\<rparr>,
      xfr_in = \<lparr>master = \<lparr>sa_family = - 1, sa_ptr = None, sa_len = 0\<rparr>, ifaces = None,
                timer = None, expire = None, next_id = - 1\<rparr>\<rparr>"

definition ex_sockaddr_set :: "int \<Rightarrow> string \<Rightarrow> int \<Rightarrow> int \<times> sockaddr" where
  "ex_sockaddr_set fam addr port =
     (if addr = [] \<or> port < 0 then (- 1, \<lparr>sa_family = - 1, sa_ptr = None, sa_len = 0\<rparr>)
      else (1, \<lparr>sa_family = fam, sa_ptr = Some (addr, port), sa_len = 16\<rparr>))"

definition ex_mtime :: "string \<Rightarrow> int" where
  "ex_mtime path =
     (if path = ''/z/new.zone'' then 2000 else if path = ''/z/old.zone'' then 500 else 1000)"

definition ex_zload_open :: "string \<Rightarrow> zloader option" where
  "ex_zload_open path =
     (if path = ''/z/ex.db'' then
        Some \<lparr>zl_source = ''/z/ex.zone'', zl_needs_update = False,
              zl_zone = Some (ex_zone ''example.com.'' (ex_rdata 10 5 30))\<rparr>
      else if path = ''/z/bad.db'' then
        Some \<lparr>zl_source = ''/z/bad.zone'', zl_needs_update = False, zl_zone = None\<rparr>
      else None)"

definition ex_env :: env where
  "ex_env =
     \<lparr>dnslib_dname_new_from_str = (\<lambda>s. if s = [] then None else Some s),
      sockaddr_set = ex_sockaddr_set,
      acl_alloc_ok = True,
      stat_ok = (\<lambda>path. path \<noteq> ''/z/none.zone''),
      stat_mtime = ex_mtime,
      dnslib_zload_open = ex_zload_open,
      xfrin_create_soa_query = (\<lambda>dn. (KNOT_EOK, [172, 119, 1, 0])),
      sendto = (\<lambda>sock buf addr. - 1),
      dnslib_wire_get_id = (\<lambda>buf. 44151)\<rparr>"

definition ex_sched :: evsched where
  "ex_sched = \<lparr>es_events = (\<lambda>e. None), es_queue = [], es_next = 1\<rparr>"

definition ex_world :: world where
  "ex_world =
     \<lparr>w_zones = (\<lambda>p. None), w_next_zone = 1, w_sched = ex_sched,
      w_ifaces = [\<lparr>if_type_udp = 2, if_fd_udp = 5\<rparr>]\<rparr>"

definition ex_remote :: "string \<Rightarrow> conf_remote" where
  "ex_remote addr = \<lparr>remote = \<lparr>cfg_family = 2, cfg_address = addr, cfg_port = 53\<rparr>\<rparr>"

definition ex_conf :: "string \<Rightarrow> string \<Rightarrow> conf_remote list \<Rightarrow> conf_zone" where
  "ex_conf n src masters =
     \<lparr>cz_name = n, cz_file = src, cz_db = Some ''/z/ex.db'',
      cz_acl = \<lparr>conf_xfr_in = masters, conf_xfr_out = [ex_remote ''10.0.0.2''],
               conf_notify_in = [], conf_notify_out = []\<rparr>\<rparr>"

text \<open>What the database answers when the loader inserts the decoded, version-stamped zone
  as the new object of the store (lines 283-287 of zones.c).\<close>

definition load_insert_attempt :: "env \<Rightarrow> world \<Rightarrow> zonedb \<Rightarrow> string \<Rightarrow> zone \<Rightarrow> zonedb option" where
  "load_insert_attempt env w db fn decoded =
     dnslib_zonedb_add_zone
       ((w_zones w)(w_next_zone w \<mapsto> decoded\<lparr>version := stat_mtime env fn\<rparr>)) db (w_next_zone w)"

text \<open>States of the concrete server: the zone object 1 as the reconciler leaves it after
  loading \<open>/z/ex.db\<close> (with a given master, POLL and EXPIRE reference), the two timer
  events, and the store, scheduler and database around it.\<close>

definition ex_master :: sockaddr where
  "ex_master = \<lparr>sa_family = 2, sa_ptr = Some (''10.0.0.1'', 53), sa_len = 16\<rparr>"

definition ex_unset :: sockaddr where
  "ex_unset = \<lparr>sa_family = - 1, sa_ptr = None, sa_len = 0\<rparr>"

definition ex_acl :: "string list \<Rightarrow> acl option" where
  "ex_acl addrs =
     Some \<lparr>acl_default = ACL_DENY,
           acl_rules = map (\<lambda>a. (\<lparr>sa_family = 2, sa_ptr = Some (a, 53), sa_len = 16\<rparr>, ACL_ACCEPT))
                           addrs\<rparr>"

definition ex_loaded_zone :: "sockaddr \<Rightarrow> event_ptr option \<Rightarrow> event_ptr option \<Rightarrow> zone" where
  "ex_loaded_zone m t x =
     \<lparr>apex = \<lparr>owner = ''example.com.'',
              rrsets = [\<lparr>rrs_type = 6, rrs_rdata = [ex_rdata 10 5 30]\<rparr>]\<rparr>,
      version = 1000,
      zacl = \<lparr>xfr_out = ex_acl [''10.0.0.2''], xfr_in_acl = None, notify_in = ex_acl [],
               notify_out = ex_acl []\<rparr>,
      xfr_in = \<lparr>master = m, ifaces = Some Server_ifaces, timer = t, expire = x, next_id = - 1\<rparr>\<rparr>"

text \<open>The same zone object with RETRY = EXPIRE = 4294968 s in its SOA.\<close>

definition ex_slow_zone :: zone where
  "ex_slow_zone =
     (ex_loaded_zone ex_master (Some 1) None)
       \<lparr>apex := \<lparr>owner = ''example.com.'',
                 rrsets = [\<lparr>rrs_type = 6, rrs_rdata = [ex_rdata 10 4294968 4294968]\<rparr>]\<rparr>\<rparr>"

definition ex_poll_event :: event where
  "ex_poll_event = \<lparr>ev_cb = Cb_axfrin_poll, ev_data = 1\<rparr>"

definition ex_expire_event :: event where
  "ex_expire_event = \<lparr>ev_cb = Cb_axfrin_expire, ev_data = 1\<rparr>"

definition ex_world_of :: "zone \<Rightarrow> evsched \<Rightarrow> world" where
  "ex_world_of zone sch =
     \<lparr>w_zones = (\<lambda>p. None)(1 \<mapsto> zone), w_next_zone = 2, w_sched = sch,
      w_ifaces = [\<lparr>if_type_udp = 2, if_fd_udp = 5\<rparr>]\<rparr>"

definition ex_sched1 :: "(event_ptr \<times> u32) list \<Rightarrow> evsched" where
  "ex_sched1 q = \<lparr>es_events = (\<lambda>e. None)(1 \<mapsto> ex_poll_event), es_queue = q, es_next = 2\<rparr>"

definition ex_sched2 :: "(event_ptr \<times> u32) list \<Rightarrow> evsched" where
  "ex_sched2 q =
     \<lparr>es_events = (\<lambda>e. None)(1 \<mapsto> ex_poll_event, 2 \<mapsto> ex_expire_event),
      es_queue = q, es_next = 3\<rparr>"

definition ex_db1 :: zonedb where
  "ex_db1 = (\<lambda>n. None)(''example.com.'' \<mapsto> 1)"

section \<open>Verification\<close>

subsection \<open>SOA timer extractor\<close>

lemma zones_soa_timer_apex:
  "zones_soa_timer zone f = map_option (\<lambda>rd. f rd * 1000) (apex_soa zone)"
  by (simp add: zones_soa_timer_def apex_soa_def split: option.splits)

lemma apex_soa_xfr_in_update [simp]: "apex_soa (z\<lparr>xfr_in := x\<rparr>) = apex_soa z"
  by (simp add: apex_soa_def)

lemma apex_soa_zacl_update [simp]: "apex_soa (z\<lparr>zacl := x\<rparr>) = apex_soa z"
  by (simp add: apex_soa_def)

lemma apex_soa_version_update [simp]: "apex_soa (z\<lparr>version := x\<rparr>) = apex_soa z"
  by (simp add: apex_soa_def)

lemma apex_soa_ex_zone [simp]: "apex_soa (ex_zone n rd) = Some rd"
  by (simp add: apex_soa_def ex_zone_def DNSLIB_RRTYPE_SOA_def)

text \<open>A field of at most 4294967 seconds is converted exactly: the product fits into 32
  bits.\<close>

lemma unat_times_1000:
  "unat (x :: u32) \<le> 4294967 \<Longrightarrow> unat (x * 1000) = 1000 * unat x"
  by (simp add: unat_word_ariths)

lemma zones_soa_timer_in_range:
  assumes "apex_soa zone = Some rd" and "unat (f rd) \<le> 4294967"
  shows "map_option unat (zones_soa_timer zone f) = Some (1000 * unat (f rd))"
  using assms by (simp add: zones_soa_timer_apex unat_times_1000)

text \<open>
  Claim C4 (the extractor returns \<open>1000 * R\<close>, \<open>1000 * r\<close>, \<open>1000 * E\<close> milliseconds for all
  32-bit field values) at a zone whose SOA carries REFRESH = RETRY = EXPIRE = 4294968 s:
  the multiplication \<^verbatim>\<open>ret * 1000\<close> is done in \<^verbatim>\<open>uint32_t\<close> and overflows; each of the three
  extractors returns 704 instead of 4294968000 milliseconds. With the fields at 4294967 s,
  the largest value that fits, the same zone gives 4294967000.
\<close>

theorem soa_timers_overflow_at_4294968:
  "apex_soa (ex_zone ''example.com.'' (ex_rdata 4294968 4294968 4294968))
     = Some (ex_rdata 4294968 4294968 4294968)
   \<and> map_option unat (zones_soa_refresh (ex_zone ''example.com.'' (ex_rdata 4294968 4294968 4294968)))
       = Some 704
   \<and> map_option unat (zones_soa_retry (ex_zone ''example.com.'' (ex_rdata 4294968 4294968 4294968)))
       = Some 704
   \<and> map_option unat (zones_soa_expire (ex_zone ''example.com.'' (ex_rdata 4294968 4294968 4294968)))
       = Some 704
   \<and> 1000 * unat (soa_refresh (ex_rdata 4294968 4294968 4294968)) = 4294968000
   \<and> map_option unat (zones_soa_refresh (ex_zone ''example.com.'' (ex_rdata 4294967 4294967 4294967)))
       = Some 4294967000"
  by (simp add: zones_soa_refresh_def zones_soa_retry_def zones_soa_expire_def
      zones_soa_timer_apex ex_rdata_def)

subsection \<open>Evaluating the concrete server\<close>

lemmas ex_defs = ex_env_def ex_world_def ex_sched_def ex_conf_def ex_remote_def ex_zload_open_def
  ex_mtime_def ex_sockaddr_set_def ex_zone_def ex_master_def ex_unset_def ex_acl_def
  ex_loaded_zone_def ex_slow_zone_def ex_poll_event_def ex_expire_event_def ex_world_of_def
  ex_sched1_def ex_sched2_def ex_db1_def ex_rdata_def

lemmas zones_defs = zones_insert_zone_def zones_reload_flag_def zones_obtain_zone_def
  zones_load_zone_def zones_update_zone_def zones_update_acl_master_def zones_timers_update_def
  zones_set_acl_def acl_new_def acl_create_def sockaddr_init_def
  dnslib_zonedb_find_zone_def dnslib_zonedb_add_zone_def dnslib_zonedb_remove_zone_def
  evsched_schedule_cb_def evsched_schedule_def evsched_cancel_def evsched_event_free_def
  zones_soa_refresh_def zones_soa_retry_def zones_soa_expire_def zones_soa_timer_apex
  zones_axfrin_poll_def zones_poll_send_def zones_axfrin_expire_def live_events_def
  apex_soa_def DNSLIB_RRTYPE_SOA_def Let_def

text \<open>The first load of \<open>example.com.\<close> with master 10.0.0.1 into an empty server: the
  zone becomes object 1 at version 1000, and its POLL timer (event 1) is armed for
  REFRESH = 10000 ms.\<close>

lemma ex_first_load:
  "zones_insert_zones ex_env [ex_conf ''example.com.'' ''/z/ex.zone'' [ex_remote ''10.0.0.1'']]
     (\<lambda>n. None) (0, ex_world, (\<lambda>n. None))
   = Some (1, ex_world_of (ex_loaded_zone ex_master (Some 1) None) (ex_sched1 [(1, 10000)]), ex_db1)"
  by (simp add: ex_defs zones_defs)

text \<open>The first firing of that POLL event (taken off the queue by the scheduler): the send
  fails, EXPIRE (event 2) is armed for 30000 ms and the POLL event is rescheduled for
  RETRY = 5000 ms.\<close>

lemma ex_first_poll:
  "zones_axfrin_poll ex_env (ex_world_of (ex_loaded_zone ex_master (Some 1) None) (ex_sched1 [])) 1
   = Some (Send_ret (- 1),
           ex_world_of (ex_loaded_zone ex_master (Some 1) (Some 2))
             (ex_sched2 [(2, 30000), (1, 5000)]))"
  by (simp add: ex_defs zones_defs)

text \<open>When EXPIRE (event 2) fires, the POLL event is cancelled and freed, the EXPIRE event
  frees itself and \<open>next_id\<close> is \<open>-1\<close>.\<close>

lemma ex_expire_fires:
  "map_option (\<lambda>(ret, w). (ret, es_queue (w_sched w), es_events (w_sched w) 1,
                 es_events (w_sched w) 2, map_option xfr_in (w_zones w 1)))
     (zones_axfrin_expire
        (ex_world_of (ex_loaded_zone ex_master (Some 1) (Some 2)) (ex_sched2 [(1, 5000)])) 2)
   = Some (0, [], None, None,
           Some \<lparr>master = ex_master, ifaces = Some Server_ifaces, timer = None, expire = None,
                 next_id = - 1\<rparr>)"
  by (simp add: ex_defs zones_defs)

subsection \<open>AXFR-IN poll handler\<close>

lemma zones_poll_send_frame:
  "zones_poll_send env ifs zone = (ret, zone1) \<Longrightarrow>
     apex zone1 = apex zone \<and> version zone1 = version zone \<and> zacl zone1 = zacl zone
     \<and> expire (xfr_in zone1) = expire (xfr_in zone)
     \<and> master (xfr_in zone1) = master (xfr_in zone)
     \<and> ifaces (xfr_in zone1) = ifaces (xfr_in zone)
     \<and> timer (xfr_in zone1) = timer (xfr_in zone)"
  by (auto simp: zones_poll_send_def Let_def split: prod.splits if_splits)

lemma apex_soa_cong: "apex z1 = apex z2 \<Longrightarrow> apex_soa z1 = apex_soa z2"
  by (simp add: apex_soa_def)


lemma queue_ms_append [simp]: "queue_ms (xs @ ys) = queue_ms xs @ queue_ms ys"
  by (simp add: queue_ms_def)

lemma queue_ms_Nil [simp]: "queue_ms [] = []"
  by (simp add: queue_ms_def)

lemma queue_ms_single [simp]: "queue_ms [(e, d)] = [(e, unat d)]"
  by (simp add: queue_ms_def)




text \<open>
  Claim C10: on a POLL firing, \<open>next_id\<close> becomes the wire ID of the new query exactly
  when the query was built, the zone has an interface table, an interface of the master's
  family exists and \<^verbatim>\<open>sendto\<close> returned the length of the query; in every other case
  (no interface, failed or short send) it keeps its previous value. The master, the
  interface reference and the POLL timer reference of the zone are unchanged, as are the
  apex, the version and the ACLs.
\<close>

theorem poll_next_id_frame:
  assumes ev: "es_events (w_sched w) e = Some ev"
      and zn: "w_zones w (ev_data ev) = Some zone"
      and soa: "apex_soa zone = Some rd"
      and q: "xfrin_create_soa_query env (owner (apex zone)) = (qret, qbuf)"
  shows "\<exists>ret w' zone'. zones_axfrin_poll env w e = Some (ret, w')
     \<and> w_zones w' (ev_data ev) = Some zone'
     \<and> next_id (xfr_in zone') =
         (if qret = KNOT_EOK \<and> ifaces (xfr_in zone) \<noteq> None
             \<and> find_iface_sock (w_ifaces w) (sa_family (master (xfr_in zone))) > - 1
             \<and> sendto env (find_iface_sock (w_ifaces w) (sa_family (master (xfr_in zone)))) qbuf
                  (master (xfr_in zone)) = int (length qbuf)
          then uint (dnslib_wire_get_id env qbuf)
          else next_id (xfr_in zone))
     \<and> master (xfr_in zone') = master (xfr_in zone)
     \<and> ifaces (xfr_in zone') = ifaces (xfr_in zone)
     \<and> timer (xfr_in zone') = timer (xfr_in zone)
     \<and> apex zone' = apex zone \<and> version zone' = version zone \<and> zacl zone' = zacl zone"
proof -
  obtain ret zone1 where ps: "zones_poll_send env (w_ifaces w) zone = (ret, zone1)"
    by (cases "zones_poll_send env (w_ifaces w) zone")
  from zones_poll_send_frame [OF ps] have a: "apex zone1 = apex zone"
    and x: "expire (xfr_in zone1) = expire (xfr_in zone)"
    and r1: "master (xfr_in zone1) = master (xfr_in zone)"
      "ifaces (xfr_in zone1) = ifaces (xfr_in zone)"
      "timer (xfr_in zone1) = timer (xfr_in zone)"
      "version zone1 = version zone" "zacl zone1 = zacl zone"
    by simp_all
  have s1: "apex_soa zone1 = Some rd" using soa apex_soa_cong [OF a] by simp
  have n1: "next_id (xfr_in zone1) =
         (if qret = KNOT_EOK \<and> ifaces (xfr_in zone) \<noteq> None
             \<and> find_iface_sock (w_ifaces w) (sa_family (master (xfr_in zone))) > - 1
             \<and> sendto env (find_iface_sock (w_ifaces w) (sa_family (master (xfr_in zone)))) qbuf
                  (master (xfr_in zone)) = int (length qbuf)
          then uint (dnslib_wire_get_id env qbuf)
          else next_id (xfr_in zone))"
    using ps q by (auto simp: zones_poll_send_def Let_def split: if_splits)
  show ?thesis
  proof (cases "expire (xfr_in zone) = None")
    case True
    then show ?thesis using ev zn ps x s1 a r1 n1
      by (simp add: zones_axfrin_poll_def zones_soa_expire_def zones_soa_retry_def
          zones_soa_timer_apex evsched_schedule_cb_def evsched_schedule_def Let_def)
  next
    case False
    then show ?thesis using ev zn ps x s1 a r1 n1
      by (simp add: zones_axfrin_poll_def zones_soa_expire_def zones_soa_retry_def
          zones_soa_timer_apex evsched_schedule_cb_def evsched_schedule_def Let_def)
  qed
qed

text \<open>Witness for C10: with the unreachable master \<open>next_id\<close> stays \<open>-1\<close>; when
  \<^verbatim>\<open>sendto\<close> accepts the whole query it becomes the query's ID, 44151; when the send is
  one byte short it stays \<open>-1\<close>; and when the only interface has another family than the
  master, nothing is sent and it stays \<open>-1\<close> although \<^verbatim>\<open>sendto\<close> would accept the
  query.\<close>

theorem poll_next_id_frame_witness:
  "(\<exists>ret w' zone'. zones_axfrin_poll ex_env
        (ex_world_of (ex_loaded_zone ex_master (Some 1) None) (ex_sched1 [])) 1 = Some (ret, w')
      \<and> w_zones w' 1 = Some zone' \<and> next_id (xfr_in zone') = - 1
      \<and> master (xfr_in zone') = ex_master \<and> timer (xfr_in zone') = Some 1)
   \<and> (\<exists>ret w' zone'. zones_axfrin_poll (ex_env\<lparr>sendto := \<lambda>sock buf addr. int (length buf)\<rparr>)
        (ex_world_of (ex_loaded_zone ex_master (Some 1) None) (ex_sched1 [])) 1 = Some (ret, w')
      \<and> w_zones w' 1 = Some zone' \<and> next_id (xfr_in zone') = 44151
      \<and> master (xfr_in zone') = ex_master \<and> timer (xfr_in zone') = Some 1)
   \<and> (\<exists>ret w' zone'. zones_axfrin_poll (ex_env\<lparr>sendto := \<lambda>sock buf addr. int (length buf) - 1\<rparr>)
        (ex_world_of (ex_loaded_zone ex_master (Some 1) None) (ex_sched1 [])) 1 = Some (ret, w')
      \<and> w_zones w' 1 = Some zone' \<and> next_id (xfr_in zone') = - 1
      \<and> master (xfr_in zone') = ex_master \<and> timer (xfr_in zone') = Some 1)
   \<and> (\<exists>ret w' zone'. zones_axfrin_poll (ex_env\<lparr>sendto := \<lambda>sock buf addr. int (length buf)\<rparr>)
        ((ex_world_of (ex_loaded_zone ex_master (Some 1) None) (ex_sched1 []))
           \<lparr>w_ifaces := [\<lparr>if_type_udp = 10, if_fd_udp = 6\<rparr>]\<rparr>) 1 = Some (ret, w')
      \<and> w_zones w' 1 = Some zone' \<and> next_id (xfr_in zone') = - 1
      \<and> master (xfr_in zone') = ex_master \<and> timer (xfr_in zone') = Some 1)"
proof -
  let ?z = "ex_loaded_zone ex_master (Some 1) None"
  let ?w = "ex_world_of ?z (ex_sched1 [])"
  have soa: "apex_soa ?z = Some (ex_rdata 10 5 30)"
    by (simp add: ex_loaded_zone_def apex_soa_def DNSLIB_RRTYPE_SOA_def)
  have a: "es_events (w_sched ?w) 1 = Some ex_poll_event"
    by (simp add: ex_world_of_def ex_sched1_def)
  have c: "w_zones ?w (ev_data ex_poll_event) = Some ?z"
    by (simp add: ex_world_of_def ex_poll_event_def)
  have q: "xfrin_create_soa_query (ex_env\<lparr>sendto := f\<rparr>) (owner (apex ?z))
             = (KNOT_EOK, [172, 119, 1, 0])" for f
    by (simp add: ex_env_def)
  have q0: "xfrin_create_soa_query ex_env (owner (apex ?z)) = (KNOT_EOK, [172, 119, 1, 0])"
    by (simp add: ex_env_def)
  from poll_next_id_frame [OF a c soa q0]
  have down: "\<exists>ret w' zone'. zones_axfrin_poll ex_env ?w 1 = Some (ret, w')
      \<and> w_zones w' 1 = Some zone' \<and> next_id (xfr_in zone') = - 1
      \<and> master (xfr_in zone') = ex_master \<and> timer (xfr_in zone') = Some 1"
    by (simp add: ex_loaded_zone_def ex_world_of_def ex_env_def ex_poll_event_def ex_master_def)
      blast
  from poll_next_id_frame [OF a c soa q [of "\<lambda>sock buf addr. int (length buf)"]]
  have up: "\<exists>ret w' zone'. zones_axfrin_poll (ex_env\<lparr>sendto := \<lambda>sock buf addr. int (length buf)\<rparr>)
        ?w 1 = Some (ret, w')
      \<and> w_zones w' 1 = Some zone' \<and> next_id (xfr_in zone') = 44151
      \<and> master (xfr_in zone') = ex_master \<and> timer (xfr_in zone') = Some 1"
    by (simp add: ex_loaded_zone_def ex_world_of_def ex_env_def ex_poll_event_def ex_master_def)
      blast
  from poll_next_id_frame [OF a c soa q [of "\<lambda>sock buf addr. int (length buf) - 1"]]
  have short: "\<exists>ret w' zone'.
        zones_axfrin_poll (ex_env\<lparr>sendto := \<lambda>sock buf addr. int (length buf) - 1\<rparr>)
        ?w 1 = Some (ret, w')
      \<and> w_zones w' 1 = Some zone' \<and> next_id (xfr_in zone') = - 1
      \<and> master (xfr_in zone') = ex_master \<and> timer (xfr_in zone') = Some 1"
    by (simp add: ex_loaded_zone_def ex_world_of_def ex_env_def ex_poll_event_def ex_master_def)
      blast
  let ?v = "?w\<lparr>w_ifaces := [\<lparr>if_type_udp = 10, if_fd_udp = 6\<rparr>]\<rparr>"
  have a': "es_events (w_sched ?v) 1 = Some ex_poll_event"
    by (simp add: ex_world_of_def ex_sched1_def)
  have c': "w_zones ?v (ev_data ex_poll_event) = Some ?z"
    by (simp add: ex_world_of_def ex_poll_event_def)
  from poll_next_id_frame [OF a' c' soa q [of "\<lambda>sock buf addr. int (length buf)"]]
  have noif: "\<exists>ret w' zone'.
        zones_axfrin_poll (ex_env\<lparr>sendto := \<lambda>sock buf addr. int (length buf)\<rparr>)
        ?v 1 = Some (ret, w')
      \<and> w_zones w' 1 = Some zone' \<and> next_id (xfr_in zone') = - 1
      \<and> master (xfr_in zone') = ex_master \<and> timer (xfr_in zone') = Some 1"
    by (simp add: ex_loaded_zone_def ex_world_of_def ex_env_def ex_poll_event_def ex_master_def)
      blast
  from down up short noif show ?thesis by simp
qed

subsection \<open>ACL builder\<close>

text \<open>The walk over the remotes appends, in order, an ACCEPT rule for every remote whose
  address resolves.\<close>

lemma zones_load_acl_rules_eq:
  "zones_load_acl_rules env a rules =
     a\<lparr>acl_rules := acl_rules a
         @ map (\<lambda>r. (remote_addr env r, ACL_ACCEPT)) (filter (remote_resolves env) rules)\<rparr>"
proof (induction rules arbitrary: a)
  case Nil
  then show ?case by simp
next
  case (Cons r rest)
  show ?case
  proof (cases "remote_resolves env r")
    case True
    then show ?thesis
      by (simp add: Cons.IH acl_create_def remote_resolves_def remote_addr_def Let_def
          case_prod_beta)
  next
    case False
    then show ?thesis
      by (simp add: Cons.IH acl_create_def remote_resolves_def remote_addr_def Let_def
          case_prod_beta)
  qed
qed

text \<open>
  Claim C8: the ACL rebuild returns INVALID_PARAM when the slot pointer or the rule list is
  NULL, leaving the slot as it was; with both present it returns OUT_OF_MEMORY when the
  allocation of the new ACL fails (the slot then holds NULL), and otherwise OK with a new
  ACL installed whose default action is DENY and whose rules are, in order, an ACCEPT rule
  for exactly the input rules whose address resolution succeeded; a rule that does not
  resolve is skipped and the rebuild goes on.
\<close>

theorem zones_set_acl_outcomes:
  "(acl = None \<or> acl_list = None \<longrightarrow> zones_set_acl env acl acl_list = (KNOT_EINVAL, acl))
   \<and> (\<not> acl_alloc_ok env \<longrightarrow>
        zones_set_acl env (Some slot) (Some rules) = (KNOT_ENOMEM, Some None))
   \<and> (acl_alloc_ok env \<longrightarrow>
        zones_set_acl env (Some slot) (Some rules) =
          (KNOT_EOK,
           Some (Some \<lparr>acl_default = ACL_DENY,
                       acl_rules = map (\<lambda>r. (remote_addr env r, ACL_ACCEPT))
                                       (filter (remote_resolves env) rules)\<rparr>)))"
  by (auto simp: zones_set_acl_def acl_new_def zones_load_acl_rules_eq split: option.splits)

text \<open>Witness for C8: a NULL slot pointer, a NULL list, a failing allocation, and a
  rebuild from three remotes of which the second does not resolve.\<close>

theorem zones_set_acl_outcomes_witness:
  "zones_set_acl ex_env None (Some [ex_remote ''10.0.0.2'']) = (KNOT_EINVAL, None)
   \<and> zones_set_acl ex_env (Some (ex_acl [''10.0.0.1''])) None
       = (KNOT_EINVAL, Some (ex_acl [''10.0.0.1'']))
   \<and> zones_set_acl (ex_env\<lparr>acl_alloc_ok := False\<rparr>) (Some (ex_acl [''10.0.0.1'']))
        (Some [ex_remote ''10.0.0.2''])
       = (KNOT_ENOMEM, Some None)
   \<and> zones_set_acl ex_env (Some (ex_acl [''10.0.0.1'']))
        (Some [ex_remote ''10.0.0.2'', ex_remote [], ex_remote ''10.0.0.3''])
       = (KNOT_EOK, Some (ex_acl [''10.0.0.2'', ''10.0.0.3'']))"
  using zones_set_acl_outcomes [of None "Some [ex_remote ''10.0.0.2'']" ex_env]
    zones_set_acl_outcomes [of "Some (ex_acl [''10.0.0.1''])" None ex_env]
    zones_set_acl_outcomes [where env = "ex_env\<lparr>acl_alloc_ok := False\<rparr>"
      and slot = "ex_acl [''10.0.0.1'']" and rules = "[ex_remote ''10.0.0.2'']"]
    zones_set_acl_outcomes [where env = ex_env and slot = "ex_acl [''10.0.0.1'']"
      and rules = "[ex_remote ''10.0.0.2'', ex_remote [], ex_remote ''10.0.0.3'']"]
  by (simp add: ex_env_def ex_remote_def ex_sockaddr_set_def ex_acl_def remote_resolves_def
      remote_addr_def)

subsection \<open>Zone loader\<close>

text \<open>
  Claim C7, as stated, at the compiled file \<open>/z/bad.db\<close>: the path is not NULL, the file
  opens and no insertion into the database fails (none is attempted), yet the load does
  not return OK: the file does not decode into a zone and the load fails with
  ZONE_INVALID.
\<close>

theorem zones_load_zone_decode_failure_counterexample:
  "Some ''/z/bad.db'' \<noteq> (None :: string option)
   \<and> dnslib_zload_open ex_env ''/z/bad.db'' \<noteq> None
   \<and> map_option zl_zone (dnslib_zload_open ex_env ''/z/bad.db'') = Some None
   \<and> zones_load_zone ex_env ex_world (\<lambda>n. None) ''bad.'' ''/z/bad.zone'' (Some ''/z/bad.db'')
       = (KNOT_EZONEINVAL, ex_world, (\<lambda>n. None))
   \<and> KNOT_EZONEINVAL \<noteq> KNOT_EOK"
  by (simp add: ex_env_def ex_zload_open_def zones_load_zone_def)

text \<open>
  Claim C7, amended: the zone load fails with INVALID_PARAM exactly when the compiled-file
  path is NULL. With a path it fails with ZONE_INVALID exactly when the compiled file
  cannot be opened, or the opened file does not decode into a zone, or the database
  refuses the decoded zone; in the last case the zone is freed again (it is not in the
  store). In every failure the database is unchanged. Otherwise the load returns OK, and
  the new zone object carries the modification time of the compiled file as its version
  and is in the database under the owner of its apex. No other object of the store
  changes.
\<close>

theorem zones_load_zone_outcomes:
  assumes "zones_load_zone env w db zone_name source filename = (ret, w', db')"
  shows "(ret = KNOT_EOK \<or> ret = KNOT_EINVAL \<or> ret = KNOT_EZONEINVAL)
     \<and> (ret = KNOT_EINVAL) = (filename = None)
     \<and> (ret = KNOT_EZONEINVAL) =
          (\<exists>fn. filename = Some fn \<and>
             (dnslib_zload_open env fn = None
              \<or> (\<exists>zl. dnslib_zload_open env fn = Some zl \<and>
                    (zl_zone zl = None
                     \<or> (\<exists>decoded. zl_zone zl = Some decoded
                           \<and> load_insert_attempt env w db fn decoded = None)))))
     \<and> (ret = KNOT_EOK) =
          (\<exists>fn zl decoded. filename = Some fn \<and> dnslib_zload_open env fn = Some zl
             \<and> zl_zone zl = Some decoded
             \<and> load_insert_attempt env w db fn decoded = Some db')
     \<and> (ret = KNOT_EOK \<longrightarrow>
          (\<exists>fn zone. filename = Some fn
             \<and> w_zones w' (w_next_zone w) = Some zone
             \<and> version zone = stat_mtime env fn
             \<and> db' (owner (apex zone)) = Some (w_next_zone w)))
     \<and> (ret \<noteq> KNOT_EOK \<longrightarrow> db' = db)
     \<and> (\<forall>fn zl decoded. filename = Some fn \<and> dnslib_zload_open env fn = Some zl
             \<and> zl_zone zl = Some decoded \<and> load_insert_attempt env w db fn decoded = None
           \<longrightarrow> w_zones w' (w_next_zone w) = None)
     \<and> (\<forall>q. q \<noteq> w_next_zone w \<longrightarrow> w_zones w' q = w_zones w q)"
proof (cases filename)
  case None
  then show ?thesis using assms by (auto simp: zones_load_zone_def)
next
  case (Some fn)
  show ?thesis
  proof (cases "dnslib_zload_open env fn")
    case None
    then show ?thesis using assms Some by (auto simp: zones_load_zone_def)
  next
    case zl: (Some zl)
    show ?thesis
    proof (cases "zl_zone zl")
      case None
      then show ?thesis using assms Some zl by (auto simp: zones_load_zone_def)
    next
      case dec: (Some decoded)
      show ?thesis
      proof (cases "load_insert_attempt env w db fn decoded")
        case None
        then show ?thesis using assms Some zl dec
          by (auto simp: zones_load_zone_def load_insert_attempt_def Let_def)
      next
        case ins: (Some db1)
        then have "db1 (owner (apex decoded)) = Some (w_next_zone w)"
          by (auto simp: load_insert_attempt_def dnslib_zonedb_add_zone_def split: option.splits)
        then show ?thesis using assms Some zl dec ins
          by (auto simp: zones_load_zone_def load_insert_attempt_def Let_def)
      qed
    qed
  qed
qed

text \<open>Witness for C7: loading \<open>/z/ex.db\<close> into the empty server returns OK; the zone is
  object 1 with version 1000 (the modification time of \<open>/z/ex.db\<close>) and the database maps
  \<open>example.com.\<close> to it. Loading it into a database that already holds \<open>example.com.\<close>
  fails with ZONE_INVALID: the database is unchanged and the new object is freed. A NULL
  path fails with INVALID_PARAM.\<close>

theorem zones_load_zone_outcomes_witness:
  "fst (zones_load_zone ex_env ex_world (\<lambda>n. None) ''example.com.'' ''/z/ex.zone''
          (Some ''/z/ex.db'')) = KNOT_EOK
   \<and> (\<exists>zone. w_zones (fst (snd (zones_load_zone ex_env ex_world (\<lambda>n. None) ''example.com.''
                 ''/z/ex.zone'' (Some ''/z/ex.db'')))) 1 = Some zone
         \<and> version zone = 1000
         \<and> snd (snd (zones_load_zone ex_env ex_world (\<lambda>n. None) ''example.com.''
                 ''/z/ex.zone'' (Some ''/z/ex.db''))) (owner (apex zone)) = Some 1)
   \<and> fst (zones_load_zone ex_env (ex_world_of (ex_loaded_zone ex_unset None None) ex_sched)
          ex_db1 ''example.com.'' ''/z/ex.zone'' (Some ''/z/ex.db'')) = KNOT_EZONEINVAL
   \<and> snd (snd (zones_load_zone ex_env (ex_world_of (ex_loaded_zone ex_unset None None) ex_sched)
          ex_db1 ''example.com.'' ''/z/ex.zone'' (Some ''/z/ex.db''))) = ex_db1
   \<and> w_zones (fst (snd (zones_load_zone ex_env
          (ex_world_of (ex_loaded_zone ex_unset None None) ex_sched)
          ex_db1 ''example.com.'' ''/z/ex.zone'' (Some ''/z/ex.db'')))) 2 = None
   \<and> fst (zones_load_zone ex_env ex_world (\<lambda>n. None) ''example.com.'' ''/z/ex.zone'' None)
       = KNOT_EINVAL"
proof -
  let ?r = "zones_load_zone ex_env ex_world (\<lambda>n. None) ''example.com.'' ''/z/ex.zone''
              (Some ''/z/ex.db'')"
  let ?w = "ex_world_of (ex_loaded_zone ex_unset None None) ex_sched"
  let ?f = "zones_load_zone ex_env ?w ex_db1 ''example.com.'' ''/z/ex.zone'' (Some ''/z/ex.db'')"
  let ?n = "zones_load_zone ex_env ex_world (\<lambda>n. None) ''example.com.'' ''/z/ex.zone'' None"
  have r: "?r = (fst ?r, fst (snd ?r), snd (snd ?r))" by simp
  have f: "?f = (fst ?f, fst (snd ?f), snd (snd ?f))" by simp
  have n: "?n = (fst ?n, fst (snd ?n), snd (snd ?n))" by simp
  have att: "load_insert_attempt ex_env ex_world (\<lambda>n. None) ''/z/ex.db''
               (ex_zone ''example.com.'' (ex_rdata 10 5 30)) \<noteq> None"
    by (simp add: load_insert_attempt_def dnslib_zonedb_add_zone_def ex_world_def ex_zone_def)
  have refused: "load_insert_attempt ex_env ?w ex_db1 ''/z/ex.db''
               (ex_zone ''example.com.'' (ex_rdata 10 5 30)) = None"
    by (simp add: load_insert_attempt_def dnslib_zonedb_add_zone_def ex_world_of_def ex_zone_def
        ex_db1_def)
  have op: "dnslib_zload_open ex_env ''/z/ex.db'' =
      Some \<lparr>zl_source = ''/z/ex.zone'', zl_needs_update = False,
            zl_zone = Some (ex_zone ''example.com.'' (ex_rdata 10 5 30))\<rparr>"
    by (simp add: ex_env_def ex_zload_open_def)
  have mt: "stat_mtime ex_env ''/z/ex.db'' = 1000" "w_next_zone ex_world = 1" "w_next_zone ?w = 2"
    by (simp_all add: ex_env_def ex_mtime_def ex_world_def ex_world_of_def)
  have nz: "fst ?r \<noteq> KNOT_EINVAL" "fst ?r \<noteq> KNOT_EZONEINVAL"
    using zones_load_zone_outcomes [OF r] att op by auto
  then have ok: "fst ?r = KNOT_EOK"
    using zones_load_zone_outcomes [OF r] by blast
  have loaded: "\<exists>zone. w_zones (fst (snd ?r)) 1 = Some zone \<and> version zone = 1000
                  \<and> snd (snd ?r) (owner (apex zone)) = Some 1"
    using zones_load_zone_outcomes [OF r] ok mt by auto
  have bad: "fst ?f = KNOT_EZONEINVAL"
    using zones_load_zone_outcomes [OF f] refused op by auto
  then have same: "snd (snd ?f) = ex_db1" "w_zones (fst (snd ?f)) 2 = None"
    using zones_load_zone_outcomes [OF f] refused op mt by auto
  have inval: "fst ?n = KNOT_EINVAL"
    using zones_load_zone_outcomes [OF n] by simp
  from ok loaded bad same inval show ?thesis by simp
qed

subsection \<open>Zone database reconciler\<close>

text \<open>The timer update and the reconciler's update of a zone object return, change no
  other object of the store and keep the apex, the version, the ACLs, the master and the
  interface reference they find.\<close>

lemma zones_timers_update_store:
  assumes "w_zones w p = Some zone" "apex_soa zone = Some rd"
  shows "\<exists>w' zone'. zones_timers_update w p = Some w' \<and> w_zones w' = (w_zones w)(p \<mapsto> zone')
           \<and> zacl zone' = zacl zone \<and> apex zone' = apex zone \<and> version zone' = version zone
           \<and> master (xfr_in zone') = master (xfr_in zone)
           \<and> ifaces (xfr_in zone') = ifaces (xfr_in zone)
           \<and> w_next_zone w' = w_next_zone w"
proof (cases "sa_ptr (master (xfr_in zone)) = None")
  case True
  then have "zones_timers_update w p = Some w" using assms(1)
    by (simp add: zones_timers_update_def)
  moreover have "w_zones w = (w_zones w)(p \<mapsto> zone)" using assms(1) by (simp add: map_upd_triv)
  ultimately show ?thesis by blast
next
  case False
  let ?t = "es_next (w_sched w)"
  show ?thesis
  proof (cases "expire (xfr_in zone)")
    case None
    let ?z = "zone\<lparr>xfr_in := (xfr_in zone)\<lparr>timer := Some ?t\<rparr>\<rparr>"
    have "\<exists>w'. zones_timers_update w p = Some w' \<and> w_zones w' = (w_zones w)(p \<mapsto> ?z)
            \<and> w_next_zone w' = w_next_zone w"
      using False None assms
      by (auto simp: zones_timers_update_def zones_soa_refresh_def zones_soa_timer_apex
          evsched_schedule_cb_def Let_def)
    then obtain w' where "zones_timers_update w p = Some w'" "w_zones w' = (w_zones w)(p \<mapsto> ?z)"
      "w_next_zone w' = w_next_zone w" by blast
    then show ?thesis by (intro exI [of _ w'] exI [of _ ?z]) simp
  next
    case (Some x)
    let ?z = "zone\<lparr>xfr_in := (xfr_in zone)\<lparr>timer := Some ?t, expire := None\<rparr>\<rparr>"
    have "\<exists>w'. zones_timers_update w p = Some w' \<and> w_zones w' = (w_zones w)(p \<mapsto> ?z)
            \<and> w_next_zone w' = w_next_zone w"
      using False Some assms
      by (auto simp: zones_timers_update_def zones_soa_refresh_def zones_soa_timer_apex
          evsched_schedule_cb_def Let_def)
    then obtain w' where "zones_timers_update w p = Some w'" "w_zones w' = (w_zones w)(p \<mapsto> ?z)"
      "w_next_zone w' = w_next_zone w" by blast
    then show ?thesis by (intro exI [of _ w'] exI [of _ ?z]) simp
  qed
qed

lemma zones_timers_update_total:
  assumes "w_zones w p = Some zone" "apex_soa zone = Some rd"
  shows "\<exists>w' zone'. zones_timers_update w p = Some w' \<and> w_zones w' p = Some zone'
           \<and> zacl zone' = zacl zone \<and> apex zone' = apex zone \<and> version zone' = version zone
           \<and> master (xfr_in zone') = master (xfr_in zone)
           \<and> ifaces (xfr_in zone') = ifaces (xfr_in zone)
           \<and> w_next_zone w' = w_next_zone w"
proof -
  obtain w' zone' where "zones_timers_update w p = Some w'" "w_zones w' = (w_zones w)(p \<mapsto> zone')"
    "zacl zone' = zacl zone" "apex zone' = apex zone" "version zone' = version zone"
    "master (xfr_in zone') = master (xfr_in zone)" "ifaces (xfr_in zone') = ifaces (xfr_in zone)"
    "w_next_zone w' = w_next_zone w"
    using zones_timers_update_store [OF assms] by blast
  then show ?thesis by auto
qed

lemma zones_update_acl_master_acls:
  "snd (zones_set_acl env (Some (xfr_out (zacl zone))) (Some (conf_xfr_out (cz_acl z))))
     = Some (xfr_out (zacl (zones_update_acl_master env z zone)))
   \<and> snd (zones_set_acl env (Some (notify_in (zacl zone))) (Some (conf_notify_in (cz_acl z))))
     = Some (notify_in (zacl (zones_update_acl_master env z zone)))
   \<and> snd (zones_set_acl env (Some (notify_out (zacl zone))) (Some (conf_notify_out (cz_acl z))))
     = Some (notify_out (zacl (zones_update_acl_master env z zone)))
   \<and> xfr_in_acl (zacl (zones_update_acl_master env z zone)) = xfr_in_acl (zacl zone)"
  by (simp add: zones_update_acl_master_def zones_set_acl_def Let_def
      split: option.splits list.splits)

lemma zones_update_acl_master_frame:
  "apex (zones_update_acl_master env z zone) = apex zone
   \<and> version (zones_update_acl_master env z zone) = version zone
   \<and> timer (xfr_in (zones_update_acl_master env z zone)) = timer (xfr_in zone)
   \<and> expire (xfr_in (zones_update_acl_master env z zone)) = expire (xfr_in zone)
   \<and> next_id (xfr_in (zones_update_acl_master env z zone)) = next_id (xfr_in zone)
   \<and> ifaces (xfr_in (zones_update_acl_master env z zone)) = Some Server_ifaces"
  by (simp add: zones_update_acl_master_def Let_def split: list.splits)

lemma zones_update_acl_master_master:
  "master (xfr_in (zones_update_acl_master env z zone)) =
     (case conf_xfr_in (cz_acl z) of
        [] \<Rightarrow> sockaddr_init (- 1)
      | r # rest \<Rightarrow> remote_addr env r)"
  by (simp add: zones_update_acl_master_def remote_addr_def Let_def split: list.splits)

lemma zones_update_acl_master_unset:
  "conf_xfr_in (cz_acl z) = [] \<Longrightarrow>
     sa_ptr (master (xfr_in (zones_update_acl_master env z zone))) = None"
  by (simp add: zones_update_acl_master_def Let_def sockaddr_init_def)

lemma apex_soa_update_acl_master [simp]:
  "apex_soa (zones_update_acl_master env z zone) = apex_soa zone"
  using zones_update_acl_master_frame [of env z zone] by (simp add: apex_soa_def)

lemma zones_update_zone_total:
  assumes "w_zones w p = Some zone" "apex_soa zone = Some rd"
  shows "\<exists>w' zone'. zones_update_zone env z w p = Some w'
           \<and> zones_timers_update
                (w\<lparr>w_zones := (w_zones w)(p \<mapsto> zones_update_acl_master env z zone)\<rparr>) p = Some w'
           \<and> w_zones w' = (w_zones w)(p \<mapsto> zone')
           \<and> zacl zone' = zacl (zones_update_acl_master env z zone)
           \<and> master (xfr_in zone') = master (xfr_in (zones_update_acl_master env z zone))
           \<and> ifaces (xfr_in zone') = Some Server_ifaces
           \<and> apex zone' = apex zone \<and> version zone' = version zone
           \<and> w_next_zone w' = w_next_zone w"
proof -
  let ?z1 = "zones_update_acl_master env z zone"
  let ?w1 = "w\<lparr>w_zones := (w_zones w)(p \<mapsto> ?z1)\<rparr>"
  have "w_zones ?w1 p = Some ?z1" by simp
  moreover have "apex_soa ?z1 = Some rd" using assms(2) by simp
  ultimately obtain w' zone' where t: "zones_timers_update ?w1 p = Some w'"
    "w_zones w' = (w_zones ?w1)(p \<mapsto> zone')" "zacl zone' = zacl ?z1"
    "apex zone' = apex ?z1" "version zone' = version ?z1"
    "master (xfr_in zone') = master (xfr_in ?z1)" "ifaces (xfr_in zone') = ifaces (xfr_in ?z1)"
    "w_next_zone w' = w_next_zone ?w1"
    using zones_timers_update_store by blast
  have "w_zones w' = (w_zones w)(p \<mapsto> zone')" using t(2) by simp
  moreover have "zones_update_zone env z w p = Some w'"
    using assms(1) t(1) by (simp add: zones_update_zone_def)
  ultimately show ?thesis
    using t zones_update_acl_master_frame [of env z zone]
    by (intro exI [of _ w'] exI [of _ zone']) simp
qed

text \<open>A zone without a master: the reconciler's update leaves the scheduler and the zone's
  timer references as they are.\<close>

lemma zones_update_zone_unset_master:
  assumes "w_zones w p = Some zone" and "conf_xfr_in (cz_acl z) = []"
  shows "\<exists>w' zone'. zones_update_zone env z w p = Some w'
         \<and> w_zones w' p = Some zone'
         \<and> sa_ptr (master (xfr_in zone')) = None
         \<and> w_sched w' = w_sched w
         \<and> timer (xfr_in zone') = timer (xfr_in zone)
         \<and> expire (xfr_in zone') = expire (xfr_in zone)"
  using assms(1) zones_update_acl_master_unset [OF assms(2), of env zone]
    zones_update_acl_master_frame [of env z zone]
  by (simp add: zones_update_zone_def zones_timers_update_def)

text \<open>
  Claim C1, as stated, on the first load of \<open>example.com.\<close> with the configured xfr-in
  list [10.0.0.1]: after the reconciler has processed the zone, its xfr-in ACL is still
  NULL, while the ACL builder applied to that slot and list yields an ACL that accepts
  10.0.0.1. The reconciler never calls the builder for xfr-in.
\<close>

theorem xfr_in_acl_not_rebuilt_counterexample:
  "map_option (\<lambda>(inserted, w, db). map_option (\<lambda>zone. xfr_in_acl (zacl zone)) (w_zones w 1))
     (zones_insert_zone ex_env (ex_conf ''example.com.'' ''/z/ex.zone'' [ex_remote ''10.0.0.1''])
        ''example.com.'' (\<lambda>n. None) (0, ex_world, (\<lambda>n. None)))
   = Some (Some None)
   \<and> snd (zones_set_acl ex_env (Some None) (Some [ex_remote ''10.0.0.1'']))
       = Some (ex_acl [''10.0.0.1''])
   \<and> ex_acl [''10.0.0.1''] \<noteq> None"
  by (simp add: ex_defs zones_defs)

text \<open>
  Claim C1, amended: for every configured zone for which the reconciler obtained a zone
  object (freshly loaded or carried over), three of its ACLs, xfr_out, notify_in and
  notify_out, are rebuilt from the corresponding configuration rule lists via the ACL
  builder before timers are updated: \<^verbatim>\<open>zones_timers_update\<close> runs on the store that already
  holds the rebuilt ACLs and does not change them. The zone's xfr_in ACL is left as it
  was. From the configured xfr_in list the reconciler takes the master address, also
  before timers are updated: unset for an empty list, otherwise the address that
  \<^verbatim>\<open>sockaddr_set\<close> leaves for the head rule; and it sets the zone's interface table
  reference to the server's table.
\<close>

theorem reconciler_rebuilds_three_acls:
  assumes fl: "zones_reload_flag env w z (dnslib_zonedb_find_zone db_old zone_name) = Some reload"
      and ob: "zones_obtain_zone env z zone_name (dnslib_zonedb_find_zone db_old zone_name) reload
                 (inserted, w, db_new) = (Some p, inserted1, w1, db1)"
      and zn: "w_zones w1 p = Some zone"
      and soa: "apex_soa zone = Some rd"
  shows "\<exists>zone1 w' zone'.
           zones_insert_zone env z zone_name db_old (inserted, w, db_new) = Some (inserted1, w', db1)
         \<and> zones_timers_update (w1\<lparr>w_zones := (w_zones w1)(p \<mapsto> zone1)\<rparr>) p = Some w'
         \<and> w_zones w' p = Some zone'
         \<and> zacl zone' = zacl zone1
         \<and> snd (zones_set_acl env (Some (xfr_out (zacl zone))) (Some (conf_xfr_out (cz_acl z))))
             = Some (xfr_out (zacl zone1))
         \<and> snd (zones_set_acl env (Some (notify_in (zacl zone))) (Some (conf_notify_in (cz_acl z))))
             = Some (notify_in (zacl zone1))
         \<and> snd (zones_set_acl env (Some (notify_out (zacl zone))) (Some (conf_notify_out (cz_acl z))))
             = Some (notify_out (zacl zone1))
         \<and> xfr_in_acl (zacl zone1) = xfr_in_acl (zacl zone)
         \<and> master (xfr_in zone1) =
             (case conf_xfr_in (cz_acl z) of
                [] \<Rightarrow> sockaddr_init (- 1)
              | r # rest \<Rightarrow> remote_addr env r)
         \<and> master (xfr_in zone') = master (xfr_in zone1)
         \<and> ifaces (xfr_in zone1) = Some Server_ifaces
         \<and> ifaces (xfr_in zone') = Some Server_ifaces"
proof -
  let ?z1 = "zones_update_acl_master env z zone"
  obtain w' zone' where u: "zones_update_zone env z w1 p = Some w'"
    "zones_timers_update (w1\<lparr>w_zones := (w_zones w1)(p \<mapsto> ?z1)\<rparr>) p = Some w'"
    "w_zones w' = (w_zones w1)(p \<mapsto> zone')" "zacl zone' = zacl ?z1"
    "master (xfr_in zone') = master (xfr_in ?z1)" "ifaces (xfr_in zone') = Some Server_ifaces"
    using zones_update_zone_total [OF zn soa] by blast
  have i: "zones_insert_zone env z zone_name db_old (inserted, w, db_new) = Some (inserted1, w', db1)"
    using fl ob u(1) by (simp add: zones_insert_zone_def)
  have s: "w_zones w' p = Some zone'" using u(3) by simp
  have f: "ifaces (xfr_in ?z1) = Some Server_ifaces"
    using zones_update_acl_master_frame [of env z zone] by simp
  show ?thesis
    using i u(2) s u(4) zones_update_acl_master_acls [of env zone z]
      zones_update_acl_master_master [of env z zone] u(5) f u(6)
    by blast
qed

text \<open>Witness for C1: the first load of \<open>example.com.\<close> with xfr-out list [10.0.0.2],
  empty notify lists and xfr-in list [10.0.0.1], which becomes the master.\<close>

theorem reconciler_rebuilds_three_acls_witness:
  "\<exists>w' zone'.
     zones_insert_zone ex_env (ex_conf ''example.com.'' ''/z/ex.zone'' [ex_remote ''10.0.0.1''])
        ''example.com.'' (\<lambda>n. None) (0, ex_world, (\<lambda>n. None)) = Some (1, w', ex_db1)
     \<and> w_zones w' 1 = Some zone'
     \<and> xfr_out (zacl zone') = ex_acl [''10.0.0.2'']
     \<and> notify_in (zacl zone') = ex_acl []
     \<and> notify_out (zacl zone') = ex_acl []
     \<and> xfr_in_acl (zacl zone') = None
     \<and> master (xfr_in zone') = ex_master
     \<and> ifaces (xfr_in zone') = Some Server_ifaces"
proof -
  let ?z = "ex_conf ''example.com.'' ''/z/ex.zone'' [ex_remote ''10.0.0.1'']"
  let ?zone = "(ex_zone ''example.com.'' (ex_rdata 10 5 30))\<lparr>version := 1000\<rparr>"
  let ?w1 = "ex_world\<lparr>w_zones := (w_zones ex_world)(1 \<mapsto> ?zone), w_next_zone := 2\<rparr>"
  have fl: "zones_reload_flag ex_env ex_world ?z (dnslib_zonedb_find_zone (\<lambda>n. None) ''example.com.'')
              = Some True"
    by (simp add: zones_reload_flag_def dnslib_zonedb_find_zone_def)
  have ob: "zones_obtain_zone ex_env ?z ''example.com.''
              (dnslib_zonedb_find_zone (\<lambda>n. None) ''example.com.'') True
              (0, ex_world, (\<lambda>n. None)) = (Some 1, 1, ?w1, ex_db1)"
    by (simp add: ex_defs zones_obtain_zone_def zones_load_zone_def dnslib_zonedb_find_zone_def
        dnslib_zonedb_add_zone_def Let_def)
  have zn: "w_zones ?w1 1 = Some ?zone" by simp
  have soa: "apex_soa ?zone = Some (ex_rdata 10 5 30)" by simp
  have acls: "snd (zones_set_acl ex_env (Some (xfr_out (zacl ?zone))) (Some (conf_xfr_out (cz_acl ?z))))
                = Some (ex_acl [''10.0.0.2''])"
    "snd (zones_set_acl ex_env (Some (notify_in (zacl ?zone))) (Some (conf_notify_in (cz_acl ?z))))
                = Some (ex_acl [])"
    "snd (zones_set_acl ex_env (Some (notify_out (zacl ?zone))) (Some (conf_notify_out (cz_acl ?z))))
                = Some (ex_acl [])"
    "xfr_in_acl (zacl ?zone) = None"
    by (simp_all add: ex_defs zones_set_acl_def acl_new_def acl_create_def)
  have m: "(case conf_xfr_in (cz_acl ?z) of
                [] \<Rightarrow> sockaddr_init (- 1)
              | r # rest \<Rightarrow> remote_addr ex_env r) = ex_master"
    by (simp add: ex_defs remote_addr_def)
  from reconciler_rebuilds_three_acls [OF fl ob zn soa] acls m show ?thesis
    by (metis option.inject)
qed

text \<open>Soundness of the databases and freshness of the allocation counter are kept by the
  loader, by the update of a zone object, by one pass of the loop body and by the loop.\<close>

lemma store_keeps_refl [simp]: "store_keeps w w"
  by (simp add: store_keeps_def)


lemma db_extends_refl [simp]: "db_extends db db"
  by (simp add: db_extends_def)



















text \<open>
  Claim C6, as stated, on a configuration whose first zone name does not convert to a
  domain name: \<^verbatim>\<open>zones_remove_zones\<close> returns ERROR at once, and the old database still
  holds \<open>example.com.\<close>, a name that appears in the configuration.
\<close>

theorem zones_remove_zones_stops_counterexample:
  "zones_remove_zones ex_env
      [ex_conf [] ''/z/none.zone'' [], ex_conf ''example.com.'' ''/z/ex.zone'' []] ex_db1
     = (KNOT_ERROR, ex_db1)
   \<and> ex_db1 ''example.com.'' = Some 1
   \<and> ''example.com.'' \<in> set (conf_dnames ex_env
          [ex_conf [] ''/z/none.zone'' [], ex_conf ''example.com.'' ''/z/ex.zone'' []])"
  by (simp add: ex_defs zones_defs conf_dnames_def)

lemma conf_dnames_Nil [simp]: "conf_dnames env [] = []"
  by (simp add: conf_dnames_def)

lemma conf_dnames_Cons:
  "conf_dnames env (z # rest) =
     (case dnslib_dname_new_from_str env (cz_name z) of
        None \<Rightarrow> conf_dnames env rest
      | Some n \<Rightarrow> n # conf_dnames env rest)"
  by (simp add: conf_dnames_def split: option.splits)

lemma conf_dnames_takeWhile_subset:
  "set (conf_dnames env (takeWhile P zone_conf)) \<subseteq> set (conf_dnames env zone_conf)"
  by (induction zone_conf) (auto simp: conf_dnames_Cons split: option.splits)

text \<open>The loop in closed form: it removes the names of the entries before the first one
  whose name does not convert, and returns ERROR when there is such an entry.\<close>

lemma zones_remove_zones_eq:
  "zones_remove_zones env zone_conf db =
     (if \<forall>z \<in> set zone_conf. conf_converts env z then KNOT_EOK else KNOT_ERROR,
      \<lambda>n. if n \<in> set (conf_dnames env (takeWhile (conf_converts env) zone_conf))
           then None else db n)"
proof (induction zone_conf arbitrary: db)
  case Nil
  show ?case by simp
next
  case (Cons z rest)
  show ?case
  proof (cases "dnslib_dname_new_from_str env (cz_name z)")
    case None
    then show ?thesis by (simp add: conf_converts_def)
  next
    case (Some zn)
    then have conv: "conf_converts env z" by (simp add: conf_converts_def)
    have "zones_remove_zones env (z # rest) db = zones_remove_zones env rest (db(zn := None))"
      using Some by (simp add: dnslib_zonedb_remove_zone_def)
    also have "\<dots> =
       (if \<forall>z \<in> set rest. conf_converts env z then KNOT_EOK else KNOT_ERROR,
        \<lambda>n. if n \<in> set (conf_dnames env (takeWhile (conf_converts env) rest))
             then None else (db(zn := None)) n)"
      by (rule Cons.IH)
    also have "\<dots> =
       (if \<forall>z \<in> set (z # rest). conf_converts env z then KNOT_EOK else KNOT_ERROR,
        \<lambda>n. if n \<in> set (conf_dnames env (takeWhile (conf_converts env) (z # rest)))
             then None else db n)"
      using Some conv by (auto simp: conf_dnames_Cons fun_eq_iff)
    finally show ?thesis .
  qed
qed

text \<open>
  Claim C6, amended: for every configuration and every old database,
  \<^verbatim>\<open>zones_remove_zones\<close> returns OK or ERROR, and OK exactly when every configured zone name
  converts to a domain name; then the old database contains exactly those zones whose name
  does not appear in the configuration. When a configured name does not convert, the
  function returns ERROR at the first such entry: exactly the names configured before that
  entry have been removed, and a zone whose name is configured only at or after that entry
  is still in the old database. In every case no zone whose name is not configured has
  been removed, and nothing has been added or replaced. The store of zone objects is not
  an argument of the function: no zone is freed.
\<close>

theorem zones_remove_zones_result:
  assumes "zones_remove_zones env zone_conf db_old = (ret, db')"
  shows "(ret = KNOT_EOK \<or> ret = KNOT_ERROR)
     \<and> ((ret = KNOT_EOK) = (\<forall>z \<in> set zone_conf. dnslib_dname_new_from_str env (cz_name z) \<noteq> None))
     \<and> (ret = KNOT_EOK \<longrightarrow>
          (\<forall>n. db' n = (if n \<in> set (conf_dnames env zone_conf) then None else db_old n)))
     \<and> (\<forall>pre z post. zone_conf = pre @ z # post
            \<and> (\<forall>c \<in> set pre. conf_converts env c) \<and> \<not> conf_converts env z \<longrightarrow>
          ret = KNOT_ERROR
          \<and> (\<forall>n. db' n = (if n \<in> set (conf_dnames env pre) then None else db_old n)))
     \<and> (\<forall>n. db' n =
          (if n \<in> set (conf_dnames env (takeWhile (conf_converts env) zone_conf))
           then None else db_old n))
     \<and> (\<forall>n. n \<notin> set (conf_dnames env zone_conf) \<longrightarrow> db' n = db_old n)
     \<and> (\<forall>n. db' n = None \<or> db' n = db_old n)"
proof -
  let ?all = "\<forall>z \<in> set zone_conf. conf_converts env z"
  from assms have ret: "ret = (if ?all then KNOT_EOK else KNOT_ERROR)"
    and db: "db' = (\<lambda>n. if n \<in> set (conf_dnames env (takeWhile (conf_converts env) zone_conf))
                        then None else db_old n)"
    by (simp_all add: zones_remove_zones_eq)
  have c1: "ret = KNOT_EOK \<or> ret = KNOT_ERROR" using ret by simp
  have c2: "(ret = KNOT_EOK)
      = (\<forall>z \<in> set zone_conf. dnslib_dname_new_from_str env (cz_name z) \<noteq> None)"
    using ret by (simp add: conf_converts_def)
  have c3: "ret = KNOT_EOK \<longrightarrow>
      (\<forall>n. db' n = (if n \<in> set (conf_dnames env zone_conf) then None else db_old n))"
  proof
    assume "ret = KNOT_EOK"
    then have ?all using ret by (simp split: if_splits)
    then have tw: "takeWhile (conf_converts env) zone_conf = zone_conf"
      by (simp add: takeWhile_eq_all_conv)
    show "\<forall>n. db' n = (if n \<in> set (conf_dnames env zone_conf) then None else db_old n)"
      unfolding db tw by simp
  qed
  have c4: "\<forall>pre z post. zone_conf = pre @ z # post
            \<and> (\<forall>c \<in> set pre. conf_converts env c) \<and> \<not> conf_converts env z \<longrightarrow>
          ret = KNOT_ERROR
          \<and> (\<forall>n. db' n = (if n \<in> set (conf_dnames env pre) then None else db_old n))"
  proof (intro allI impI, elim conjE)
    fix pre z post
    assume split: "zone_conf = pre @ z # post"
      and pre: "\<forall>c \<in> set pre. conf_converts env c" and z: "\<not> conf_converts env z"
    from split z have "\<not> ?all" by auto
    then have r: "ret = KNOT_ERROR" using ret by simp
    from split pre z have tw: "takeWhile (conf_converts env) zone_conf = pre"
      by (simp add: takeWhile_append2)
    show "ret = KNOT_ERROR
        \<and> (\<forall>n. db' n = (if n \<in> set (conf_dnames env pre) then None else db_old n))"
      unfolding db tw using r by simp
  qed
  have c5: "\<forall>n. db' n =
          (if n \<in> set (conf_dnames env (takeWhile (conf_converts env) zone_conf))
           then None else db_old n)"
    using db by simp
  have c6: "\<forall>n. n \<notin> set (conf_dnames env zone_conf) \<longrightarrow> db' n = db_old n"
    using db conf_dnames_takeWhile_subset [of env "conf_converts env" zone_conf] by auto
  have c7: "\<forall>n. db' n = None \<or> db' n = db_old n"
    using db by simp
  from c1 c2 c3 c4 c5 c6 c7 show ?thesis by blast
qed

text \<open>Witness for C6. The old database holds \<open>example.com.\<close> (configured) and \<open>gone.\<close>
  (not configured): the function returns OK and the database holds \<open>gone.\<close> only. With the
  configuration \<open>example.com.\<close>, a name that does not convert, \<open>gone.\<close>, the function
  returns ERROR, \<open>example.com.\<close> has been removed and \<open>gone.\<close> is still there.\<close>

theorem zones_remove_zones_result_witness:
  "zones_remove_zones ex_env [ex_conf ''example.com.'' ''/z/ex.zone'' []]
          (ex_db1(''gone.'' \<mapsto> 7)) = (KNOT_EOK, [''gone.'' \<mapsto> 7])
   \<and> zones_remove_zones ex_env
          [ex_conf ''example.com.'' ''/z/ex.zone'' [], ex_conf [] ''/z/none.zone'' [],
           ex_conf ''gone.'' ''/z/gone.zone'' []]
          (ex_db1(''gone.'' \<mapsto> 7)) = (KNOT_ERROR, [''gone.'' \<mapsto> 7])"
proof -
  let ?db = "ex_db1(''gone.'' \<mapsto> 7)"
  let ?conf = "[ex_conf ''example.com.'' ''/z/ex.zone'' []]"
  let ?r = "zones_remove_zones ex_env ?conf ?db"
  have r: "?r = (fst ?r, snd ?r)" by simp
  have conv: "\<forall>z \<in> set ?conf. dnslib_dname_new_from_str ex_env (cz_name z) \<noteq> None"
    by (simp add: ex_env_def ex_conf_def)
  have names: "conf_dnames ex_env ?conf = [''example.com.'']"
    by (simp add: conf_dnames_Cons ex_env_def ex_conf_def)
  from zones_remove_zones_result [OF r] conv
  have "fst ?r = KNOT_EOK"
    and "\<forall>n. snd ?r n = (if n \<in> set (conf_dnames ex_env ?conf) then None else ?db n)"
    by blast+
  then have "fst ?r = KNOT_EOK" and "snd ?r = [''gone.'' \<mapsto> 7]"
    by (simp_all add: names ex_db1_def fun_eq_iff)
  then have ok: "?r = (KNOT_EOK, [''gone.'' \<mapsto> 7])"
    by (simp add: prod_eq_iff)
  let ?bad = "ex_conf [] ''/z/none.zone'' []"
  let ?post = "[ex_conf ''gone.'' ''/z/gone.zone'' []]"
  let ?s = "zones_remove_zones ex_env (?conf @ ?bad # ?post) ?db"
  have s: "?s = (fst ?s, snd ?s)" by simp
  have pre: "\<forall>c \<in> set ?conf. conf_converts ex_env c"
    by (simp add: conf_converts_def ex_env_def ex_conf_def)
  have bad: "\<not> conf_converts ex_env ?bad"
    by (simp add: conf_converts_def ex_env_def ex_conf_def)
  from zones_remove_zones_result [OF s]
  have "\<forall>pre z post. ?conf @ ?bad # ?post = pre @ z # post
            \<and> (\<forall>c \<in> set pre. conf_converts ex_env c) \<and> \<not> conf_converts ex_env z \<longrightarrow>
          fst ?s = KNOT_ERROR
          \<and> (\<forall>n. snd ?s n = (if n \<in> set (conf_dnames ex_env pre) then None else ?db n))"
    by blast
  then have "fst ?s = KNOT_ERROR
      \<and> (\<forall>n. snd ?s n = (if n \<in> set (conf_dnames ex_env ?conf) then None else ?db n))"
    using pre bad by blast
  then have "fst ?s = KNOT_ERROR" and "snd ?s = [''gone.'' \<mapsto> 7]"
    by (simp_all add: names ex_db1_def fun_eq_iff)
  then have err: "?s = (KNOT_ERROR, [''gone.'' \<mapsto> 7])"
    by (simp add: prod_eq_iff)
  from ok err show ?thesis by simp
qed

subsection \<open>Timers across reloads\<close>

text \<open>
  Claim C2 (at most one live POLL timer per zone) on the running server: after the first
  load (\<open>ex_first_load\<close>) the zone object 1 has one live POLL event, event 1. A second
  reload with the same configuration and unchanged files carries the object over, and
  \<^verbatim>\<open>zones_timers_update\<close> schedules a new POLL event without cancelling the one the zone
  refers to: events 1 and 2 are both live and both point to zone object 1.
\<close>

theorem second_reload_two_poll_timers:
  "live_events (ex_sched1 [(1, 10000)]) Cb_axfrin_poll 1 = [1]
   \<and> map_option (\<lambda>(inserted, w, db).
         (db ''example.com.'', live_events (w_sched w) Cb_axfrin_poll 1,
          map_option (\<lambda>zone. timer (xfr_in zone)) (w_zones w 1)))
       (zones_insert_zones ex_env
          [ex_conf ''example.com.'' ''/z/ex.zone'' [ex_remote ''10.0.0.1'']] ex_db1
          (0, ex_world_of (ex_loaded_zone ex_master (Some 1) None) (ex_sched1 [(1, 10000)]),
           (\<lambda>n. None)))
     = Some (Some 1, [1, 2], Some (Some 2))"
  by (simp add: ex_defs zones_defs)

text \<open>
  Claim C3 (no timer armed for a zone without a master) on the running server: after the
  first poll (\<open>ex_first_poll\<close>) the zone object 1 has a live POLL event (1) and a live
  EXPIRE event (2). A reload whose configuration has an empty xfr-in list for the zone
  carries the object over and unsets its master, but \<^verbatim>\<open>zones_timers_update\<close> returns before
  it cancels anything: both events stay live and the zone still refers to them.
\<close>

theorem master_removed_timers_stay_armed:
  "map_option (\<lambda>(inserted, w, db).
       (db ''example.com.'',
        map_option (\<lambda>zone. (sa_ptr (master (xfr_in zone)), timer (xfr_in zone),
                             expire (xfr_in zone))) (w_zones w 1),
        live_events (w_sched w) Cb_axfrin_poll 1,
        live_events (w_sched w) Cb_axfrin_expire 1))
     (zones_insert_zones ex_env [ex_conf ''example.com.'' ''/z/ex.zone'' []] ex_db1
        (0, ex_world_of (ex_loaded_zone ex_master (Some 1) (Some 2))
              (ex_sched2 [(2, 30000), (1, 5000)]),
         (\<lambda>n. None)))
   = Some (Some 1, Some (None, Some 1, Some 2), [1], [2])"
  by (simp add: ex_defs zones_defs)

end
